theory Spec2Isabelle
  imports Complex_Main "HOL-Library.List_Lexorder" "HOL-Library.Char_ord"
begin

section \<open>Python values shared by the three modules\<close>

text \<open>
  Exceptions of the Python code are values. Only \<open>RuntimeError\<close> carries its
  message, because the solver's message is part of its contract; the other exceptions are
  identified by their class.
\<close>

datatype py_error =
    IndexError
  | ValueError
  | KeyError
  | TypeError
  | ZeroDivisionError
  | AssertionError
  | EOFError
  | UnicodeDecodeError
  | LinAlgError
  | AttributeError
  | RuntimeError string

text \<open>
  Array elements are finite floating-point numbers, modelled as reals: rounding, infinities
  and overflow of IEEE arithmetic are outside the model. The one special value the code
  produces on purpose, not-a-number, is a constructor of its own.
\<close>

datatype pyfloat = Num real | NaN

text \<open>Indexing a sequence of length \<open>len\<close> with a Python integer: negative indices
  count from the end, anything else out of range raises.\<close>

definition py_index :: "nat \<Rightarrow> int \<Rightarrow> py_error + nat" where
  "py_index len i =
     (let j = (if i < 0 then int len + i else i)
      in if 0 \<le> j \<and> j < int len then Inr (nat j) else Inl IndexError)"

definition getitem :: "'a list \<Rightarrow> int \<Rightarrow> py_error + 'a" where
  "getitem xs i = (case py_index (length xs) i of Inl e \<Rightarrow> Inl e | Inr j \<Rightarrow> Inr (xs ! j))"

text \<open>\<open>range(0, m)\<close> for a Python integer \<open>m\<close>: empty when \<open>m \<le> 0\<close>.\<close>

definition py_range :: "int \<Rightarrow> nat list" where
  "py_range m = [0..<nat m]"

section \<open>util.py\<close>

subsection \<open>nth_diff\<close>

text \<open>
  \<^verbatim>\<open>
  def nth_diff(data, n):
      data_diff = np.ndarray((len(data) - n, ))
      for i in range(0, len(data) - n):
          data_diff[i] = data[i] - data[i+n]
      return data_diff
  \<close>
  \<open>np.ndarray\<close> refuses a negative length. The fresh array is uninitialised; the model
  starts it with zeros, and every cell is overwritten before a normal return.
\<close>

fun nth_diff_loop :: "real list \<Rightarrow> int \<Rightarrow> nat list \<Rightarrow> real list \<Rightarrow> py_error + real list" where
  "nth_diff_loop data n [] data_diff = Inr data_diff"
| "nth_diff_loop data n (i # rest) data_diff =
     (case getitem data (int i) of
        Inl e \<Rightarrow> Inl e
      | Inr a \<Rightarrow>
          (case getitem data (int i + n) of
             Inl e \<Rightarrow> Inl e
           | Inr b \<Rightarrow> nth_diff_loop data n rest (data_diff[i := a - b])))"

definition nth_diff :: "real list \<Rightarrow> int \<Rightarrow> py_error + real list" where
  "nth_diff data n =
     (let m = int (length data) - n
      in if m < 0 then Inl ValueError
         else nth_diff_loop data n (py_range m) (replicate (nat m) 0))"

subsection \<open>find_lead_transition\<close>

text \<open>
  A numpy array as the routines of this module see it: one-dimensional, two-dimensional (a
  list of rows of one length; an array without rows has no columns), or of another
  number of dimensions, of which only that number matters here.
\<close>

datatype ndarray = Arr1 "real list" | Arr2 "real list list" | ArrN nat

text \<open>\<open>np.mean(data, 0)\<close>: the mean of every column of a two-dimensional array.\<close>

definition np_mean0 :: "real list list \<Rightarrow> real list" where
  "np_mean0 rows =
     (case rows of
        [] \<Rightarrow> []
      | r # _ \<Rightarrow> map (\<lambda>j. (\<Sum>row\<leftarrow>rows. row ! j) / real (length rows)) [0..<length r])"

text \<open>\<open>np.linspace(start, stop, num)\<close> with the end point included.\<close>

definition np_linspace :: "real \<Rightarrow> real \<Rightarrow> int \<Rightarrow> py_error + real list" where
  "np_linspace start stop num =
     (if num < 0 then Inl ValueError
      else if num = 1 then Inr [start]
      else Inr (map (\<lambda>k. start + real k * ((stop - start) / real_of_int (num - 1))) [0..<nat num]))"

text \<open>\<open>int(r)\<close> on a float truncates towards zero.\<close>

definition py_int :: "real \<Rightarrow> int" where
  "py_int r = (if 0 \<le> r then \<lfloor>r\<rfloor> else \<lceil>r\<rceil>)"

text \<open>\<open>int(round(n / 2))\<close> for an integer \<open>n\<close>: Python 3 rounds a half to the even
  neighbour.\<close>

definition py_round_half :: "int \<Rightarrow> int" where
  "py_round_half n =
     (let k = n div 2 in if even n then k else if even k then k else k + 1)"

text \<open>\<open>xs[0:stop]\<close>: a negative stop counts from the end, and the slice is clipped to
  the sequence.\<close>

definition py_slice_to :: "'a list \<Rightarrow> int \<Rightarrow> 'a list" where
  "py_slice_to xs stop =
     take (nat (if stop < 0 then max 0 (int (length xs) + stop) else stop)) xs"

text \<open>\<open>np.argmax\<close>: the first index of the maximum; an empty array raises.\<close>

fun argmax_from :: "real \<Rightarrow> nat \<Rightarrow> nat \<Rightarrow> real list \<Rightarrow> nat" where
  "argmax_from best bi i [] = bi"
| "argmax_from best bi i (v # vs) =
     (if best < v then argmax_from v i (Suc i) vs else argmax_from best bi (Suc i) vs)"

definition np_argmax :: "real list \<Rightarrow> py_error + nat" where
  "np_argmax vs = (case vs of [] \<Rightarrow> Inl ValueError | v # rest \<Rightarrow> Inr (argmax_from v 0 1 rest))"

text \<open>
  \<^verbatim>\<open>
  for i in range(0, len(y)-n-1):
      y[i] -= y[i+n]
  \<close>
  The loop writes into \<open>y\<close>; an index error leaves the writes made so far.
\<close>

fun differencer :: "real list \<Rightarrow> int \<Rightarrow> nat list \<Rightarrow> real list \<times> py_error option" where
  "differencer y n [] = (y, None)"
| "differencer y n (i # rest) =
     (case getitem y (int i) of
        Inl e \<Rightarrow> (y, Some e)
      | Inr a \<Rightarrow>
          (case getitem y (int i + n) of
             Inl e \<Rightarrow> (y, Some e)
           | Inr b \<Rightarrow> differencer (y[i := a - b]) n rest))"

text \<open>
  The body after \<open>y\<close> is chosen: the final content of \<open>y\<close> and the outcome.
  \<^verbatim>\<open>
  x = np.linspace(center - scan_range, center + scan_range, npoints)
  n = int(width/scan_range*npoints)
  for i in range(0, len(y)-n-1):
      y[i] -= y[i+n]
  y_red = y[0:len(y) - n - 1]
  y_red = np.absolute(y_red)
  max_index = int(np.argmax(y_red) + int(round(n / 2)))
  return x[max_index]
  \<close>
\<close>

definition lead_transition_body ::
  "real list \<Rightarrow> real \<Rightarrow> real \<Rightarrow> int \<Rightarrow> real \<Rightarrow> real list \<times> (py_error + pyfloat)" where
  "lead_transition_body y center scan_range npoints width =
     (case np_linspace (center - scan_range) (center + scan_range) npoints of
        Inl e \<Rightarrow> (y, Inl e)
      | Inr x \<Rightarrow>
          if scan_range = 0 then (y, Inl ZeroDivisionError)
          else
            let n = py_int (width / scan_range * real_of_int npoints);
                stop = int (length y) - n - 1
            in (case differencer y n (py_range stop) of
                  (y', Some e) \<Rightarrow> (y', Inl e)
                | (y', None) \<Rightarrow>
                    (case np_argmax (map abs (py_slice_to y' stop)) of
                       Inl e \<Rightarrow> (y', Inl e)
                     | Inr a \<Rightarrow>
                         (case getitem x (int a + py_round_half n) of
                            Inl e \<Rightarrow> (y', Inl e)
                          | Inr v \<Rightarrow> (y', Inr (Num v))))))"

text \<open>
  \<^verbatim>\<open>
  def find_lead_transition(data, center, scan_range, npoints, width = .2e-3):
      if len(data.shape) == 2:
          y = np.mean(data, 0)
      elif len(data.shape) == 1:
          y = data
      else:
          print('data must be a one or two dimensional array!')
          return np.nan
      ...
  \<close>
  The result is the text printed, the caller's array after the call, and the outcome.
  For a two-dimensional array \<open>y\<close> is a fresh array; for a one-dimensional array \<open>y\<close>
  is the caller's array itself, so the writes of the loop land in it.
\<close>

definition find_lead_transition ::
  "ndarray \<Rightarrow> real \<Rightarrow> real \<Rightarrow> int \<Rightarrow> real \<Rightarrow> string list \<times> ndarray \<times> (py_error + pyfloat)" where
  "find_lead_transition data center scan_range npoints width =
     (case data of
        Arr2 rows \<Rightarrow>
          ([], Arr2 rows, snd (lead_transition_body (np_mean0 rows) center scan_range npoints width))
      | Arr1 y \<Rightarrow>
          (case lead_transition_body y center scan_range npoints width of
             (y', r) \<Rightarrow> ([], Arr1 y', r))
      | ArrN d \<Rightarrow> ([''data must be a one or two dimensional array!''], ArrN d, Inr NaN))"


subsection \<open>gradient_min_evaluations\<close>




text \<open>
  \<open>np.linalg.inv\<close> belongs to numpy. It is modelled by its contract in exact arithmetic:
  a singular matrix raises \<open>LinAlgError\<close>, any other square matrix gives its inverse,
  computed here as the adjugate divided by the determinant.
\<close>

definition drop_nth :: "nat \<Rightarrow> 'a list \<Rightarrow> 'a list" where
  "drop_nth k xs = take k xs @ drop (Suc k) xs"

definition minor :: "real list list \<Rightarrow> nat \<Rightarrow> nat \<Rightarrow> real list list" where
  "minor m i j = map (drop_nth j) (drop_nth i m)"

primrec det_n :: "nat \<Rightarrow> real list list \<Rightarrow> real" where
  "det_n 0 m = 1"
| "det_n (Suc k) m = (\<Sum>j\<leftarrow>[0..<Suc k]. (- 1) ^ j * (m ! 0 ! j) * det_n k (minor m 0 j))"

definition linalg_inv :: "real list list \<Rightarrow> py_error + real list list" where
  "linalg_inv m =
     (let n = length m; d = det_n n m
      in if d = 0 then Inl LinAlgError
         else Inr (map (\<lambda>i. map (\<lambda>j. (- 1) ^ (i + j) * det_n (n - 1) (minor m j i) / d) [0..<n]) [0..<n]))"

text \<open>\<open>np.dot\<close> of two matrices whose inner dimensions agree.\<close>

definition np_dot :: "real list list \<Rightarrow> real list list \<Rightarrow> real list list" where
  "np_dot a b =
     map (\<lambda>row. map (\<lambda>j. \<Sum>k\<leftarrow>[0..<length b]. row ! k * (b ! k ! j))
                  [0..<(case b of [] \<Rightarrow> 0 | r # _ \<Rightarrow> length r)]) a"





subsection \<open>find_lead_transition as specified\<close>


section \<open>solver.py\<close>

subsection \<open>pandas values\<close>

text \<open>
  A \<open>pd.Series\<close> of floats is its index labels with their values, in index order; the
  labels of an index are distinct names. Missing data is not-a-number.
\<close>

type_synonym series = "(string \<times> pyfloat) list"

definition index :: "(string \<times> 'a) list \<Rightarrow> string list" where
  "index s = map fst s"

definition values_of :: "(string \<times> 'a) list \<Rightarrow> 'a list" where
  "values_of s = map snd s"

text \<open>Float arithmetic with not-a-number.\<close>

fun fsub :: "pyfloat \<Rightarrow> pyfloat \<Rightarrow> pyfloat" where
  "fsub (Num a) (Num b) = Num (a - b)"
| "fsub _ _ = NaN"

fun fadd :: "pyfloat \<Rightarrow> pyfloat \<Rightarrow> pyfloat" where
  "fadd (Num a) (Num b) = Num (a + b)"
| "fadd _ _ = NaN"

text \<open>
  The truth value of a \<open>pd.Series\<close>: pandas refuses to give one, whatever the series
  holds (\<open>ValueError: The truth value of a Series is ambiguous\<close>).
\<close>

definition series_bool :: "series \<Rightarrow> py_error + bool" where
  "series_bool s = Inl ValueError"

text \<open>
  \<open>a - b\<close> on two series aligns them by label. With identical indexes the result keeps
  the index; otherwise its index is the sorted union of the labels, and a label that one
  side lacks gives not-a-number.
\<close>

definition series_sub :: "series \<Rightarrow> series \<Rightarrow> series" where
  "series_sub a b =
     (if index a = index b then map2 (\<lambda>(l, x) (_, y). (l, fsub x y)) a b
      else map (\<lambda>l. (l, case (map_of a l, map_of b l) of
                            (Some x, Some y) \<Rightarrow> fsub x y
                          | _ \<Rightarrow> NaN))
               (sort (remdups (index a @ index b))))"

text \<open>\<open>series + array\<close>: elementwise by position; the lengths must agree unless the array
  has one element.\<close>

definition series_add_array :: "series \<Rightarrow> pyfloat list \<Rightarrow> py_error + series" where
  "series_add_array s xs =
     (if length xs = length s then Inr (map2 (\<lambda>(l, x) y. (l, fadd x y)) s xs)
      else if length xs = 1 then Inr (map (\<lambda>(l, x). (l, fadd x (hd xs))) s)
      else Inl ValueError)"

text \<open>\<open>s[labels]\<close> for a list of labels, each of which must be in the index.\<close>

fun series_getitem_labels :: "(string \<times> 'a) list \<Rightarrow> string list \<Rightarrow> py_error + (string \<times> 'a) list" where
  "series_getitem_labels s [] = Inr []"
| "series_getitem_labels s (l # ls) =
     (case map_of s l of
        None \<Rightarrow> Inl KeyError
      | Some v \<Rightarrow>
          (case series_getitem_labels s ls of
             Inl e \<Rightarrow> Inl e
           | Inr rest \<Rightarrow> Inr ((l, v) # rest)))"

text \<open>
  The target table: one row per parameter, with the columns \<open>desired\<close>, \<open>minimum\<close>
  and \<open>maximum\<close>. \<open>len(target)\<close> is the number of rows, \<open>target.index\<close> the parameter
  names, \<open>target.desired\<close> the series of the first column.
\<close>

record target_row =
  desired :: pyfloat
  minimum :: pyfloat
  maximum :: pyfloat

type_synonym target = "(string \<times> target_row) list"

definition target_desired :: "target \<Rightarrow> series" where
  "target_desired t = map (\<lambda>(p, r). (p, desired r)) t"

subsection \<open>NewtonSolver\<close>

text \<open>
  Modelled from the spec: the gradient estimator contract (module \<open>qtune.gradient\<close> is
  not among the sources). An estimator answers \<open>estimate()\<close> with its current gradient
  row and \<open>require_measurement()\<close> with either no suggestion (\<open>None\<close>) or a concrete
  voltage point to measure next, a series over the gates.
\<close>

record gradient_estimator =
  estimate :: "real list"
  require_measurement :: "series option"

record newton_solver =
  ns_target :: target
  ns_gradient_estimators :: "gradient_estimator list"
  ns_current_position :: "series option"
  ns_current_values :: series

text \<open>
  \<^verbatim>\<open>
  def __init__(self, target, gradient_estimators, current_position=None, current_values=None):
      self._target = target
      self._gradient_estimators = list(gradient_estimators)
      assert len(self._target) == len(self._gradient_estimators)
      self._current_position = current_position
      if current_values:
          self._current_values = current_values[self._target.index]
      else:
          self._current_values = pd.Series(np.nan, index=self._target.index)
  \<close>
  \<open>if current_values:\<close> is false for \<open>None\<close> and asks a series for its truth value.
\<close>

definition NewtonSolver_init ::
  "target \<Rightarrow> gradient_estimator list \<Rightarrow> series option \<Rightarrow> series option \<Rightarrow> py_error + newton_solver" where
  "NewtonSolver_init target gradient_estimators current_position current_values =
     (if length target \<noteq> length gradient_estimators then Inl AssertionError
      else
        (case current_values of
           None \<Rightarrow>
             Inr \<lparr>ns_target = target, ns_gradient_estimators = gradient_estimators,
                  ns_current_position = current_position,
                  ns_current_values = map (\<lambda>p. (p, NaN)) (index target)\<rparr>
         | Some cv \<Rightarrow>
             (case series_bool cv of
                Inl e \<Rightarrow> Inl e
              | Inr True \<Rightarrow>
                  (case series_getitem_labels cv (index target) of
                     Inl e \<Rightarrow> Inl e
                   | Inr vals \<Rightarrow>
                       Inr \<lparr>ns_target = target, ns_gradient_estimators = gradient_estimators,
                            ns_current_position = current_position,
                            ns_current_values = vals\<rparr>)
              | Inr False \<Rightarrow>
                  Inr \<lparr>ns_target = target, ns_gradient_estimators = gradient_estimators,
                       ns_current_position = current_position,
                       ns_current_values = map (\<lambda>p. (p, NaN)) (index target)\<rparr>)))"

text \<open>
  \<^verbatim>\<open>
  def jacobian(self):
      gradients = [gradient.estimate() for gradient in self._gradient_estimators]
      return pd.DataFrame(gradients, columns=self._target.index)
  \<close>
  The rows are padded with not-a-number to the longest one, and the table needs as many
  columns as \<open>target.index\<close> has labels (the class of the error raised otherwise depends
  on the pandas release).
\<close>

definition jacobian :: "newton_solver \<Rightarrow> py_error + pyfloat list list" where
  "jacobian s =
     (let gradients = map estimate (ns_gradient_estimators s);
          width = fold max (map length gradients) 0
      in if gradients \<noteq> [] \<and> width \<noteq> length (ns_target s) then Inl ValueError
         else Inr (map (\<lambda>g. map Num g @ replicate (width - length g) NaN) gradients))"

text \<open>
  \<open>np.linalg.lstsq(a, b)\<close> first compares the number of rows of \<open>a\<close> with the length of
  \<open>b\<close> and raises \<open>LinAlgError\<close> (incompatible dimensions) when they differ; then it hands
  the system to the least-squares routine of LAPACK, the parameter \<open>solve\<close>.
\<close>

definition np_linalg_lstsq ::
  "(pyfloat list list \<Rightarrow> pyfloat list \<Rightarrow> py_error + pyfloat list) \<Rightarrow>
   pyfloat list list \<Rightarrow> pyfloat list \<Rightarrow> py_error + pyfloat list" where
  "np_linalg_lstsq solve a b = (if length a \<noteq> length b then Inl LinAlgError else solve a b)"

text \<open>
  \<^verbatim>\<open>
  for estimator in self._gradient_estimators:
      suggestion = estimator.require_measurement()
      if suggestion:
          return suggestion
  \<close>
  \<open>if suggestion:\<close> is false for \<open>None\<close> and asks a series for its truth value.
\<close>

fun first_suggestion :: "gradient_estimator list \<Rightarrow> py_error + series option" where
  "first_suggestion [] = Inr None"
| "first_suggestion (estimator # rest) =
     (case require_measurement estimator of
        None \<Rightarrow> first_suggestion rest
      | Some suggestion \<Rightarrow>
          (case series_bool suggestion of
             Inl e \<Rightarrow> Inl e
           | Inr True \<Rightarrow> Inr (Some suggestion)
           | Inr False \<Rightarrow> first_suggestion rest))"

text \<open>
  \<^verbatim>\<open>
  if self._current_position is None:
      raise RuntimeError('NewtonSolver: Position not initialized.')
  required_diff = self.target.desired - self._current_position
  step, *_ = np.linalg.lstsq(self.jacobian, required_diff)
  return self._current_position + step
  \<close>
\<close>

definition NewtonSolver_suggest_next_voltage ::
  "(pyfloat list list \<Rightarrow> pyfloat list \<Rightarrow> py_error + pyfloat list) \<Rightarrow> newton_solver \<Rightarrow> py_error + series" where
  "NewtonSolver_suggest_next_voltage solve s =
     (case first_suggestion (ns_gradient_estimators s) of
        Inl e \<Rightarrow> Inl e
      | Inr (Some suggestion) \<Rightarrow> Inr suggestion
      | Inr None \<Rightarrow>
          (case ns_current_position s of
             None \<Rightarrow> Inl (RuntimeError ''NewtonSolver: Position not initialized.'')
           | Some current_position \<Rightarrow>
               let required_diff = series_sub (target_desired (ns_target s)) current_position
               in (case jacobian s of
                     Inl e \<Rightarrow> Inl e
                   | Inr jac \<Rightarrow>
                       (case np_linalg_lstsq solve jac (values_of required_diff) of
                          Inl e \<Rightarrow> Inl e
                        | Inr step \<Rightarrow> series_add_array current_position step))))"

subsection \<open>ForwardingSolver\<close>

text \<open>
  \<open>s[labels] = values\<close> for a list of labels: every label must be in the index, and the
  values go to the labels by position, a later one overwriting an earlier one for a
  repeated label. (This is the assignment of the pandas releases the code was written
  for; they raise \<open>ValueError\<close> for a label that is not in the index.)
\<close>

definition series_update1 :: "string \<Rightarrow> 'a \<Rightarrow> (string \<times> 'a) list \<Rightarrow> (string \<times> 'a) list" where
  "series_update1 l v s = map (\<lambda>(k, x). if k = l then (k, v) else (k, x)) s"

definition series_setitem_labels ::
  "(string \<times> 'a) list \<Rightarrow> string list \<Rightarrow> 'a list \<Rightarrow> py_error + (string \<times> 'a) list" where
  "series_setitem_labels s labels vals =
     (if \<not> set labels \<subseteq> set (index s) then Inl ValueError
      else if length vals \<noteq> length labels then Inl ValueError
      else Inr (fold (\<lambda>(l, v). series_update1 l v) (zip labels vals) s))"

text \<open>
  \<open>parameter_to_voltage[parameters.index]\<close>: the voltage name of every parameter label, a
  missing value for a parameter that has none; a missing value is not a label of any
  voltage series, so the assignment that follows raises.
\<close>

definition new_voltage_names :: "(string \<times> string) list \<Rightarrow> string list \<Rightarrow> string option list" where
  "new_voltage_names parameter_to_voltage labels = map (map_of parameter_to_voltage) labels"

record forwarding_solver =
  fs_target :: target
  fs_parameter_to_voltage :: "(string \<times> string) list"
  fs_current_position :: series
  fs_next_voltage :: series

text \<open>
  \<^verbatim>\<open>
  def __init__(self, target, parameter_to_voltage, current_position, next_voltage=None):
      ...
      if next_voltage is None:
          next_voltage = self._current_position.copy()
  \<close>
  Construction with \<open>next_voltage\<close> omitted: the staged voltage starts as a copy of the
  current position. (With \<open>next_voltage\<close> given, the constructor indexes it with the
  values of the current position; that call is not part of the model.)
\<close>

definition ForwardingSolver_init :: "target \<Rightarrow> (string \<times> string) list \<Rightarrow> series \<Rightarrow> forwarding_solver" where
  "ForwardingSolver_init target parameter_to_voltage current_position =
     \<lparr>fs_target = target, fs_parameter_to_voltage = parameter_to_voltage,
      fs_current_position = current_position, fs_next_voltage = current_position\<rparr>"

definition ForwardingSolver_suggest_next_voltage :: "forwarding_solver \<Rightarrow> series" where
  "ForwardingSolver_suggest_next_voltage s = fs_next_voltage s"

text \<open>
  \<^verbatim>\<open>
  def update_after_step(self, voltages, parameters, variances):
      self._current_position[voltages.index] = voltages
      self._next_voltage[voltages.index] = voltages
      new_voltage_names = self._parameter_to_voltage[parameters.index]
      self._next_voltage[new_voltage_names] = parameters
  \<close>
  The result is the solver after the call and the exception raised, if any; an
  exception leaves the assignments made before it.
\<close>

definition ForwardingSolver_update_after_step ::
  "forwarding_solver \<Rightarrow> series \<Rightarrow> series \<Rightarrow> series \<Rightarrow> forwarding_solver \<times> py_error option" where
  "ForwardingSolver_update_after_step s voltages parameters variances =
     (case series_setitem_labels (fs_current_position s) (index voltages) (values_of voltages) of
        Inl e \<Rightarrow> (s, Some e)
      | Inr position \<Rightarrow>
          let s1 = s\<lparr>fs_current_position := position\<rparr>
          in (case series_setitem_labels (fs_next_voltage s1) (index voltages) (values_of voltages) of
                Inl e \<Rightarrow> (s1, Some e)
              | Inr staged \<Rightarrow>
                  let s2 = s1\<lparr>fs_next_voltage := staged\<rparr>;
                      names = new_voltage_names (fs_parameter_to_voltage s2) (index parameters)
                  in if None \<in> set names then (s2, Some ValueError)
                     else
                       (case series_setitem_labels (fs_next_voltage s2) (map the names) (values_of parameters) of
                          Inl e \<Rightarrow> (s2, Some e)
                        | Inr staged' \<Rightarrow> (s2\<lparr>fs_next_voltage := staged'\<rparr>, None))))"

section \<open>Analyzer.py\<close>

subsection \<open>Strings and the container file\<close>

text \<open>\<open>str(n)\<close> for an integer: decimal digits, with a minus sign for a negative number.\<close>

fun str_nat :: "nat \<Rightarrow> string" where
  "str_nat n =
     (if n < 10 then [char_of (48 + n)]
      else str_nat (n div 10) @ [char_of (48 + n mod 10)])"

definition str_int :: "int \<Rightarrow> string" where
  "str_int n = (if n < 0 then CHR ''-'' # str_nat (nat (- n)) else str_nat (nat n))"

text \<open>\<open>sub in s\<close> on strings.\<close>

fun py_in :: "string \<Rightarrow> string \<Rightarrow> bool" where
  "py_in sub [] = (sub = [])"
| "py_in sub (c # cs) = (take (length sub) (c # cs) = sub \<or> py_in sub cs)"

text \<open>\<open>name.decode("ascii")\<close> on a byte string.\<close>

definition decode_ascii :: "string \<Rightarrow> py_error + string" where
  "decode_ascii b = (if list_all (\<lambda>c. of_char c < (128 :: nat)) b then Inr b else Inl UnicodeDecodeError)"

text \<open>
  The container file is a tree of named groups and datasets, each with attributes. A
  dataset holds a one- or two-dimensional array of floats or an array of names. A path
  \<open>a/b\<close> is the list of its components.
\<close>

datatype h5data = Floats1 "real list" | Floats2 "real list list" | Names "string list"

datatype h5attr = IntA int | RealA real | StrA string

datatype h5node =
    Group "(string \<times> h5node) list" "(string \<times> h5attr) list"
  | Dataset h5data "(string \<times> h5attr) list"

fun h5_lookup :: "h5node \<Rightarrow> string list \<Rightarrow> h5node option" where
  "h5_lookup node [] = Some node"
| "h5_lookup (Dataset d attrs) (c # cs) = None"
| "h5_lookup (Group members attrs) (c # cs) =
     (case map_of members c of None \<Rightarrow> None | Some child \<Rightarrow> h5_lookup child cs)"

text \<open>\<open>group.__contains__(path)\<close>; a dataset has no such method.\<close>

definition h5_contains :: "h5node \<Rightarrow> string list \<Rightarrow> py_error + bool" where
  "h5_contains node path =
     (case node of
        Dataset d attrs \<Rightarrow> Inl AttributeError
      | Group members attrs \<Rightarrow> Inr (h5_lookup node path \<noteq> None))"

text \<open>\<open>group[path]\<close>; a dataset indexed by a name refuses (field names are for compound
  types only).\<close>

definition h5_getitem :: "h5node \<Rightarrow> string list \<Rightarrow> py_error + h5node" where
  "h5_getitem node path =
     (case node of
        Dataset d attrs \<Rightarrow> Inl ValueError
      | Group members attrs \<Rightarrow>
          (case h5_lookup node path of None \<Rightarrow> Inl KeyError | Some child \<Rightarrow> Inr child))"

text \<open>\<open>dataset[:]\<close>; a group indexed by a slice refuses.\<close>

definition h5_read :: "h5node \<Rightarrow> py_error + h5data" where
  "h5_read node = (case node of Dataset d attrs \<Rightarrow> Inr d | Group members attrs \<Rightarrow> Inl TypeError)"

definition h5_attrs :: "h5node \<Rightarrow> (string \<times> h5attr) list" where
  "h5_attrs node = (case node of Dataset d attrs \<Rightarrow> attrs | Group members attrs \<Rightarrow> attrs)"

text \<open>\<open>d[key]\<close> on a mapping such as \<open>attrs\<close>.\<close>

definition dict_getitem :: "(string \<times> 'a) list \<Rightarrow> string \<Rightarrow> py_error + 'a" where
  "dict_getitem d key = (case map_of d key of None \<Rightarrow> Inl KeyError | Some v \<Rightarrow> Inr v)"

subsection \<open>The Analyzer object and the console\<close>

text \<open>
  The fields of the Analyzer that the modelled methods use, with the console: the lines
  printed so far and the lines still waiting to be read by \<open>input()\<close>.
\<close>

record analyzer =
  root_group :: h5node
  tunable_gate_names :: "string list"
  parameter_names :: "h5data option"
  evaluator_names :: "string list option"
  console_out :: "string list"
  console_in :: "string list"

definition print :: "string \<Rightarrow> analyzer \<Rightarrow> analyzer" where
  "print line a = a\<lparr>console_out := console_out a @ [line]\<rparr>"

text \<open>
  \<^verbatim>\<open>
  def load_parameter_names(self, tune_run_number=1):
      if self.root_group.__contains__("tunerun_" + str(tune_run_number) + "/tune_sequence"):
          parameter_containing_group = self.root_group["tunerun_" + str(tune_run_number) + "/tune_sequence"]
      elif self.root_group.__contains__("tunerun_" + str(tune_run_number) + "/gradient_setup_1"):
          parameter_containing_group = self.root_group["tunerun_" + str(tune_run_number) + "/gradient_setup_1"]
      else:
          print("parameter_names could not be loaded!")
          return
      self.parameter_names = parameter_containing_group["parameter_names"][:]
  \<close>
\<close>

definition read_parameter_names :: "analyzer \<Rightarrow> h5node \<Rightarrow> analyzer \<times> py_error option" where
  "read_parameter_names a parameter_containing_group =
     (case h5_getitem parameter_containing_group [''parameter_names''] of
        Inl e \<Rightarrow> (a, Some e)
      | Inr node \<Rightarrow>
          (case h5_read node of
             Inl e \<Rightarrow> (a, Some e)
           | Inr names \<Rightarrow> (a\<lparr>parameter_names := Some names\<rparr>, None)))"

definition load_parameter_names :: "analyzer \<Rightarrow> int \<Rightarrow> analyzer \<times> py_error option" where
  "load_parameter_names a tune_run_number =
     (let run = ''tunerun_'' @ str_int tune_run_number
      in case h5_contains (root_group a) [run, ''tune_sequence''] of
           Inl e \<Rightarrow> (a, Some e)
         | Inr True \<Rightarrow>
             (case h5_getitem (root_group a) [run, ''tune_sequence''] of
                Inl e \<Rightarrow> (a, Some e)
              | Inr g \<Rightarrow> read_parameter_names a g)
         | Inr False \<Rightarrow>
             (case h5_contains (root_group a) [run, ''gradient_setup_1''] of
                Inl e \<Rightarrow> (a, Some e)
              | Inr True \<Rightarrow>
                  (case h5_getitem (root_group a) [run, ''gradient_setup_1''] of
                     Inl e \<Rightarrow> (a, Some e)
                   | Inr g \<Rightarrow> read_parameter_names a g)
              | Inr False \<Rightarrow> (print ''parameter_names could not be loaded!'' a, None)))"

text \<open>
  \<^verbatim>\<open>
  def load_tune_run_group(self, tune_run_number):
      if self.root_group.__contains__("tunerun_" + str(tune_run_number)):
          tune_run_group = self.root_group["tunerun_" + str(tune_run_number)]
          self.load_parameter_names(tune_run_number=tune_run_number)
      else:
          print("There is no tunerun number " + str(tune_run_number) + "in this file.")
          raise KeyError("Group does not exist.")
      return tune_run_group
  \<close>
\<close>

definition load_tune_run_group :: "analyzer \<Rightarrow> int \<Rightarrow> analyzer \<times> (py_error + h5node)" where
  "load_tune_run_group a tune_run_number =
     (let run = ''tunerun_'' @ str_int tune_run_number
      in case h5_contains (root_group a) [run] of
           Inl e \<Rightarrow> (a, Inl e)
         | Inr True \<Rightarrow>
             (case h5_getitem (root_group a) [run] of
                Inl e \<Rightarrow> (a, Inl e)
              | Inr tune_run_group \<Rightarrow>
                  (case load_parameter_names a tune_run_number of
                     (a', Some e) \<Rightarrow> (a', Inl e)
                   | (a', None) \<Rightarrow> (a', Inr tune_run_group)))
         | Inr False \<Rightarrow>
             (print (''There is no tunerun number '' @ str_int tune_run_number @ ''in this file.'') a,
              Inl KeyError))"

text \<open>
  \<^verbatim>\<open>
  def load_gradient_from_group(data_group):
      gradient = data_group['gradient'][:]
      heuristic_covariance = data_group['heuristic_covariance'][:]
      if "heuristic_noise" in data_group:
          heuristic_noise = data_group['heuristic_noise'][:]
      else:
          heuristic_noise = None
      return gradient, heuristic_covariance, heuristic_noise
  \<close>
\<close>

definition load_gradient_from_group :: "h5node \<Rightarrow> py_error + h5data \<times> h5data \<times> h5data option" where
  "load_gradient_from_group data_group =
     (case h5_getitem data_group [''gradient''] of Inl e \<Rightarrow> Inl e | Inr gn \<Rightarrow>
     (case h5_read gn of Inl e \<Rightarrow> Inl e | Inr gradient \<Rightarrow>
     (case h5_getitem data_group [''heuristic_covariance''] of Inl e \<Rightarrow> Inl e | Inr cn \<Rightarrow>
     (case h5_read cn of Inl e \<Rightarrow> Inl e | Inr heuristic_covariance \<Rightarrow>
     (case h5_lookup data_group [''heuristic_noise''] of
        None \<Rightarrow> Inr (gradient, heuristic_covariance, None)
      | Some nn \<Rightarrow>
          (case h5_read nn of
             Inl e \<Rightarrow> Inl e
           | Inr heuristic_noise \<Rightarrow> Inr (gradient, heuristic_covariance, Some heuristic_noise)))))))"

text \<open>
  \<^verbatim>\<open>
  def load_cd_gradient(self, gradient_number=1, tune_run_number=0):
      tune_run_group = self.load_tune_run_group(tune_run_number)
      if not tune_run_group.__contains__("charge_diagram_" + str(gradient_number)):
          if tune_run_number > 0:
              print("There is no gradient saved ... We try to find it in a previous run, since it might have been copied.")
              self.load_cd_gradient(gradient_number, tune_run_number-1)
          else:
              print("There is no gradient saved for the charge diagram number ... .")
      cd_group = tune_run_group["charge_diagram_" + str(gradient_number)]
      gradient, covariance, noise = load_gradient_from_group(cd_group)
      return gradient, covariance, noise
  \<close>
  The value of the recursive call is dropped (an exception it raises passes through);
  the lookup after the \<open>if\<close> is made in the group of the run the call started with.
\<close>

function load_cd_gradient ::
  "analyzer \<Rightarrow> int \<Rightarrow> int \<Rightarrow> analyzer \<times> (py_error + h5data \<times> h5data \<times> h5data option)" where
  "load_cd_gradient a gradient_number tune_run_number =
     (case load_tune_run_group a tune_run_number of
        (a1, Inl e) \<Rightarrow> (a1, Inl e)
      | (a1, Inr tune_run_group) \<Rightarrow>
          let name = ''charge_diagram_'' @ str_int gradient_number;
              finish = (\<lambda>a'. case h5_getitem tune_run_group [name] of
                                Inl e \<Rightarrow> (a', Inl e)
                              | Inr cd_group \<Rightarrow> (a', load_gradient_from_group cd_group))
          in (case h5_contains tune_run_group [name] of
                Inl e \<Rightarrow> (a1, Inl e)
              | Inr True \<Rightarrow> finish a1
              | Inr False \<Rightarrow>
                  if tune_run_number > 0 then
                    (case load_cd_gradient
                            (print (''There is no gradient saved for the charge diagram number ''
                                    @ str_int gradient_number @ '' in tune run number''
                                    @ str_int tune_run_number
                                    @ ''. We try to find it in a previous run, since it might have been copied.'') a1)
                            gradient_number (tune_run_number - 1) of
                       (a2, Inl e) \<Rightarrow> (a2, Inl e)
                     | (a2, Inr dropped) \<Rightarrow> finish a2)
                  else
                    finish (print (''There is no gradient saved for the charge diagram number ''
                                   @ str_int gradient_number @ '' in tune run number''
                                   @ str_int tune_run_number @ ''.'') a1)))"
  by pat_completeness auto
termination
  by (relation "measure (\<lambda>(a, gradient_number, tune_run_number). nat tune_run_number)") auto

declare load_cd_gradient.simps [simp del]

subsection \<open>load_gradient_group\<close>

text \<open>\<open>input(prompt)\<close>: the prompt is written, the next waiting line is read; with no
  line left the call raises \<open>EOFError\<close>.\<close>

definition py_input :: "string \<Rightarrow> analyzer \<Rightarrow> analyzer \<times> (py_error + string)" where
  "py_input prompt a =
     (case console_in a of
        [] \<Rightarrow> (print prompt a, Inl EOFError)
      | line # rest \<Rightarrow> ((print prompt a)\<lparr>console_in := rest\<rparr>, Inr line))"

text \<open>
  \<^verbatim>\<open>
  def load_gradient_group(self, gradient_number, tune_run_number):
      tune_run_group = self.load_tune_run_group(tune_run_number)
      if not tune_run_group.__contains__("gradient_setup_" + str(gradient_number)):
          if tune_run_number > 0:
              print("There is no gradient saved for the gradient setup number ... .")
              decision = input("Would you like to load the gradient from the previous run? (Y/N)")
              if decision == "Y":
                  print("Gradient will be loaded from a previous run!")
                  return self.load_gradient_group(gradient_number, tune_run_number - 1)
              elif decision == "N":
                  print("No gradient could be loaded!")
                  raise KeyError("Group does not exist.")
              else:
                  print("This was a yes or no question. Answer with Y or N!")
                  return self.load_gradient_group(gradient_number=gradient_number, tune_run_number=tune_run_number)
          else:
              print("There is no gradient saved for the gradient setup number ... .")
              raise KeyError("Group does not exist.")
      gradient_group = tune_run_group["gradient_setup_" + str(gradient_number)]
      return gradient_group
  \<close>
  Every recursive call comes after a line has been read from the console, so the
  method returns on every finite console input.
\<close>

lemma console_in_print [simp]: "console_in (print line a) = console_in a"
  by (simp add: print_def)

lemma console_in_read_parameter_names [simp]:
  "console_in (fst (read_parameter_names a g)) = console_in a"
  by (simp add: read_parameter_names_def split: sum.split)

lemma console_in_load_parameter_names [simp]:
  "console_in (fst (load_parameter_names a n)) = console_in a"
  by (simp add: load_parameter_names_def Let_def split: sum.split bool.split)

lemma console_in_load_tune_run_group [simp]:
  "console_in (fst (load_tune_run_group a n)) = console_in a"
proof -
  obtain a' r where p: "load_parameter_names a n = (a', r)"
    by (cases "load_parameter_names a n")
  have "console_in a' = console_in a"
    using console_in_load_parameter_names [of a n] by (simp add: p)
  then show ?thesis
    by (simp add: load_tune_run_group_def Let_def p split: sum.split bool.split option.split)
qed

lemma console_in_load_tune_run_group_pair:
  "(a1, r) = load_tune_run_group a n \<Longrightarrow> console_in a = console_in a1"
  using console_in_load_tune_run_group [of a n] by (metis fst_conv)

function load_gradient_group :: "analyzer \<Rightarrow> int \<Rightarrow> int \<Rightarrow> analyzer \<times> (py_error + h5node)" where
  "load_gradient_group a gradient_number tune_run_number =
     (case load_tune_run_group a tune_run_number of
        (a1, Inl e) \<Rightarrow> (a1, Inl e)
      | (a1, Inr tune_run_group) \<Rightarrow>
          let name = ''gradient_setup_'' @ str_int gradient_number;
              missing = ''There is no gradient saved for the gradient setup number ''
                        @ str_int gradient_number @ '' in tune run number''
                        @ str_int tune_run_number @ ''.''
          in (case h5_contains tune_run_group [name] of
                Inl e \<Rightarrow> (a1, Inl e)
              | Inr True \<Rightarrow> (a1, h5_getitem tune_run_group [name])
              | Inr False \<Rightarrow>
                  if tune_run_number > 0 then
                    (case console_in a1 of
                       [] \<Rightarrow>
                         (fst (py_input ''Would you like to load the gradient from the previous run? (Y/N)''
                                 (print missing a1)),
                          Inl EOFError)
                     | decision # rest \<Rightarrow>
                         let a2 = fst (py_input ''Would you like to load the gradient from the previous run? (Y/N)''
                                         (print missing a1))
                         in if decision = ''Y'' then
                              load_gradient_group (print ''Gradient will be loaded from a previous run!'' a2)
                                gradient_number (tune_run_number - 1)
                            else if decision = ''N'' then
                              (print ''No gradient could be loaded!'' a2, Inl KeyError)
                            else
                              load_gradient_group
                                (print ''This was a yes or no question. Answer with Y or N!'' a2)
                                gradient_number tune_run_number)
                  else (print missing a1, Inl KeyError)))"
  by pat_completeness auto
termination
  apply (relation "measure (\<lambda>(a, gradient_number, tune_run_number). length (console_in a))")
    apply simp
   apply (frule console_in_load_tune_run_group_pair, simp add: py_input_def)
  apply (frule console_in_load_tune_run_group_pair, simp add: py_input_def)
  done

declare load_gradient_group.simps [simp del]

subsection \<open>load_evaluator_names\<close>

text \<open>
  The names of the members of a group that are datasets and contain \<open>evaluator_\<close>:
  \<^verbatim>\<open>
  for element in group:
      if isinstance(group[element], h5py.Dataset) and "evaluator_" in element:
          list_evaluator_names += [element, ]
  \<close>
\<close>

fun is_dataset :: "h5node \<Rightarrow> bool" where
  "is_dataset (Dataset d attrs) = True"
| "is_dataset (Group members attrs) = False"

definition evaluator_datasets :: "h5node \<Rightarrow> py_error + string list" where
  "evaluator_datasets node =
     (case node of
        Dataset d attrs \<Rightarrow> Inl TypeError
      | Group members attrs \<Rightarrow>
          Inr (map fst (filter (\<lambda>(element, child). is_dataset child \<and> py_in ''evaluator_'' element) members)))"

text \<open>
  \<^verbatim>\<open>
  def load_evaluator_names(self, tune_run_number=1):
      tune_run_group = self.load_tune_run_group(tune_run_number=tune_run_number)
      if tune_run_group.__contains__("tune_sequence/step_0"):
          first_step_group = tune_run_group["tune_sequence/step_0"]
          ... self.evaluator_names = list_evaluator_names
      else:
          first_gradient_group = self.load_gradient_group(gradient_number=1, tune_run_number=tune_run_number)
          run_group = first_gradient_group["negative_detune_run_" + self.tunable_gate_names[0].decode("ascii") + "_0"]
          ... self.evaluator_names = list_evaluator_names
      return list_evaluator_names
  \<close>
\<close>

definition load_evaluator_names :: "analyzer \<Rightarrow> int \<Rightarrow> analyzer \<times> (py_error + string list)" where
  "load_evaluator_names a tune_run_number =
     (case load_tune_run_group a tune_run_number of
        (a1, Inl e) \<Rightarrow> (a1, Inl e)
      | (a1, Inr tune_run_group) \<Rightarrow>
          (case h5_contains tune_run_group [''tune_sequence'', ''step_0''] of
             Inl e \<Rightarrow> (a1, Inl e)
           | Inr True \<Rightarrow>
               (case h5_getitem tune_run_group [''tune_sequence'', ''step_0''] of
                  Inl e \<Rightarrow> (a1, Inl e)
                | Inr first_step_group \<Rightarrow>
                    (case evaluator_datasets first_step_group of
                       Inl e \<Rightarrow> (a1, Inl e)
                     | Inr names \<Rightarrow> (a1\<lparr>evaluator_names := Some names\<rparr>, Inr names)))
           | Inr False \<Rightarrow>
               (case load_gradient_group a1 1 tune_run_number of
                  (a2, Inl e) \<Rightarrow> (a2, Inl e)
                | (a2, Inr first_gradient_group) \<Rightarrow>
                    (case getitem (tunable_gate_names a2) 0 of
                       Inl e \<Rightarrow> (a2, Inl e)
                     | Inr gate0 \<Rightarrow>
                         (case decode_ascii gate0 of
                            Inl e \<Rightarrow> (a2, Inl e)
                          | Inr gate \<Rightarrow>
                              (case h5_getitem first_gradient_group [''negative_detune_run_'' @ gate @ ''_0''] of
                                 Inl e \<Rightarrow> (a2, Inl e)
                               | Inr run_group \<Rightarrow>
                                   (case evaluator_datasets run_group of
                                      Inl e \<Rightarrow> (a2, Inl e)
                                    | Inr names \<Rightarrow> (a2\<lparr>evaluator_names := Some names\<rparr>, Inr names))))))))"

subsection \<open>load_raw_measurement_gradient_calculation\<close>

text \<open>
  \<^verbatim>\<open>
  def load_raw_measurement_pd(self, step_group):
      raw_measurement_pd = pd.Series()
      attribute_info_pd = pd.Series()
      for evaluator in self.evaluator_names:
          raw_measurement_pd[evaluator] = step_group[evaluator][:]
          attribute_info = {key: step_group[evaluator].attrs[key] for key in step_group[evaluator].attrs.keys()}
          attribute_info_pd[evaluator] = attribute_info
      return raw_measurement_pd, attribute_info_pd
  \<close>
\<close>

fun raw_measurement_loop ::
  "h5node \<Rightarrow> string list \<Rightarrow> py_error + (string \<times> h5data) list \<times> (string \<times> (string \<times> h5attr) list) list" where
  "raw_measurement_loop step_group [] = Inr ([], [])"
| "raw_measurement_loop step_group (evaluator # rest) =
     (case h5_getitem step_group [evaluator] of
        Inl e \<Rightarrow> Inl e
      | Inr node \<Rightarrow>
          (case h5_read node of
             Inl e \<Rightarrow> Inl e
           | Inr matrix \<Rightarrow>
               (case raw_measurement_loop step_group rest of
                  Inl e \<Rightarrow> Inl e
                | Inr (raw, info) \<Rightarrow> Inr ((evaluator, matrix) # raw, (evaluator, h5_attrs node) # info))))"

definition load_raw_measurement_pd ::
  "string list option \<Rightarrow> h5node \<Rightarrow>
   py_error + (string \<times> h5data) list \<times> (string \<times> (string \<times> h5attr) list) list" where
  "load_raw_measurement_pd names step_group =
     (case names of None \<Rightarrow> Inl TypeError | Some evaluators \<Rightarrow> raw_measurement_loop step_group evaluators)"

text \<open>\<open>np.concatenate((a, b))\<close> along axis 0: the arrays need the same number of
  dimensions and, from the second axis on, the same shape.\<close>

definition row_width :: "'a list list \<Rightarrow> nat" where
  "row_width rows = (case rows of [] \<Rightarrow> 0 | r # _ \<Rightarrow> length r)"

fun np_concatenate :: "h5data \<Rightarrow> h5data \<Rightarrow> py_error + h5data" where
  "np_concatenate (Floats1 a) (Floats1 b) = Inr (Floats1 (a @ b))"
| "np_concatenate (Floats2 a) (Floats2 b) =
     (if row_width a = row_width b then Inr (Floats2 (a @ b)) else Inl ValueError)"
| "np_concatenate (Names a) (Names b) = Inr (Names (a @ b))"
| "np_concatenate (Names a) _ = Inl TypeError"
| "np_concatenate _ (Names b) = Inl TypeError"
| "np_concatenate _ _ = Inl ValueError"

text \<open>
  \<open>pd.DataFrame(index=rows, columns=cols)\<close>: a table of missing cells, and a cell read or
  written as \<open>table[col][row]\<close>.
\<close>

type_synonym 'a frame = "(string \<times> (string \<times> 'a option) list) list"

definition frame_init :: "string list \<Rightarrow> string list \<Rightarrow> 'a frame" where
  "frame_init rows cols = map (\<lambda>c. (c, map (\<lambda>r. (r, None)) rows)) cols"

definition frame_get :: "'a frame \<Rightarrow> string \<Rightarrow> string \<Rightarrow> 'a option" where
  "frame_get table col row =
     (case map_of table col of
        None \<Rightarrow> None
      | Some column \<Rightarrow> (case map_of column row of None \<Rightarrow> None | Some cell \<Rightarrow> cell))"

definition frame_set :: "'a frame \<Rightarrow> string \<Rightarrow> string \<Rightarrow> 'a \<Rightarrow> 'a frame" where
  "frame_set table col row v =
     map (\<lambda>(c, column). if c = col then (c, series_update1 row (Some v) column) else (c, column)) table"

text \<open>The four tables of the method: raw measurements and parameters, for the positive
  and for the negative detuning.\<close>

record detune_tables =
  raw_measurement_positive_detune_pd :: "h5data frame"
  raw_measurement_negative_detune_pd :: "h5data frame"
  parameter_positive_detune_pd :: "(string \<times> h5attr) list frame"
  parameter_negative_detune_pd :: "(string \<times> h5attr) list frame"

text \<open>
  The innermost loop body, for repetition \<open>i\<close>, one gate and one evaluator:
  \<^verbatim>\<open>
  matrix_pos = raw_measurement_pos_pd[evaluator]
  matrix_neg = raw_measurement_neg_pd[evaluator]
  if i == 0:
      raw_measurement_positive_detune_pd[gate][evaluator] = matrix_pos
      raw_measurement_negative_detune_pd[gate][evaluator] = matrix_neg
      parameter_positive_detune_pd[gate][evaluator] = attribute_info_pd_pos[evaluator]
      parameter_negative_detune_pd[gate][evaluator] = attribute_info_pd_neg[evaluator]
  else:
      raw_measurement_positive_detune_pd[gate][evaluator] = np.concatenate(
          (raw_measurement_positive_detune_pd[gate][evaluator], matrix_pos))
      raw_measurement_negative_detune_pd[gate][evaluator] = np.concatenate(
          (raw_measurement_negative_detune_pd[gate][evaluator], matrix_neg))
  \<close>
  A cell that is still missing cannot be concatenated with an array.
\<close>

definition concatenate_cell :: "h5data frame \<Rightarrow> string \<Rightarrow> string \<Rightarrow> h5data \<Rightarrow> py_error + h5data frame" where
  "concatenate_cell table gate evaluator matrix =
     (case frame_get table gate evaluator of
        None \<Rightarrow> Inl ValueError
      | Some old \<Rightarrow>
          (case np_concatenate old matrix of
             Inl e \<Rightarrow> Inl e
           | Inr joined \<Rightarrow> Inr (frame_set table gate evaluator joined)))"

definition evaluator_step ::
  "nat \<Rightarrow> string \<Rightarrow>
   (string \<times> h5data) list \<times> (string \<times> (string \<times> h5attr) list) list \<Rightarrow>
   (string \<times> h5data) list \<times> (string \<times> (string \<times> h5attr) list) list \<Rightarrow>
   string \<Rightarrow> detune_tables \<Rightarrow> py_error + detune_tables" where
  "evaluator_step i gate pos neg evaluator t =
     (case dict_getitem (fst pos) evaluator of Inl e \<Rightarrow> Inl e | Inr matrix_pos \<Rightarrow>
     (case dict_getitem (fst neg) evaluator of Inl e \<Rightarrow> Inl e | Inr matrix_neg \<Rightarrow>
        if i = 0 then
          (case dict_getitem (snd pos) evaluator of Inl e \<Rightarrow> Inl e | Inr info_pos \<Rightarrow>
          (case dict_getitem (snd neg) evaluator of Inl e \<Rightarrow> Inl e | Inr info_neg \<Rightarrow>
             Inr \<lparr>raw_measurement_positive_detune_pd =
                    frame_set (raw_measurement_positive_detune_pd t) gate evaluator matrix_pos,
                  raw_measurement_negative_detune_pd =
                    frame_set (raw_measurement_negative_detune_pd t) gate evaluator matrix_neg,
                  parameter_positive_detune_pd =
                    frame_set (parameter_positive_detune_pd t) gate evaluator info_pos,
                  parameter_negative_detune_pd =
                    frame_set (parameter_negative_detune_pd t) gate evaluator info_neg\<rparr>))
        else
          (case concatenate_cell (raw_measurement_positive_detune_pd t) gate evaluator matrix_pos of
             Inl e \<Rightarrow> Inl e
           | Inr positive \<Rightarrow>
               (case concatenate_cell (raw_measurement_negative_detune_pd t) gate evaluator matrix_neg of
                  Inl e \<Rightarrow> Inl e
                | Inr negative \<Rightarrow>
                    Inr (t\<lparr>raw_measurement_positive_detune_pd := positive,
                           raw_measurement_negative_detune_pd := negative\<rparr>)))))"

fun evaluator_loop ::
  "nat \<Rightarrow> string \<Rightarrow>
   (string \<times> h5data) list \<times> (string \<times> (string \<times> h5attr) list) list \<Rightarrow>
   (string \<times> h5data) list \<times> (string \<times> (string \<times> h5attr) list) list \<Rightarrow>
   string list \<Rightarrow> detune_tables \<Rightarrow> py_error + detune_tables" where
  "evaluator_loop i gate pos neg [] t = Inr t"
| "evaluator_loop i gate pos neg (evaluator # rest) t =
     (case evaluator_step i gate pos neg evaluator t of
        Inl e \<Rightarrow> Inl e
      | Inr t' \<Rightarrow> evaluator_loop i gate pos neg rest t')"

text \<open>
  The body of the loop over the gates; both reads name the positive detune run:
  \<^verbatim>\<open>
  raw_measurement_pos_pd, attribute_info_pd_pos = self.load_raw_measurement_pd(
      step_group=gradient_group["positive_detune_run_" + gate.decode("ascii") + "_" + str(i)])
  raw_measurement_neg_pd, attribute_info_pd_neg = self.load_raw_measurement_pd(
      step_group=gradient_group["positive_detune_run_" + gate.decode("ascii") + "_" + str(i)])
  for evaluator in self.evaluator_names: ...
  \<close>
\<close>

definition read_detune_run ::
  "string list option \<Rightarrow> h5node \<Rightarrow> string \<Rightarrow> string \<Rightarrow> nat \<Rightarrow>
   py_error + (string \<times> h5data) list \<times> (string \<times> (string \<times> h5attr) list) list" where
  "read_detune_run names gradient_group run gate i =
     (case decode_ascii gate of
        Inl e \<Rightarrow> Inl e
      | Inr g \<Rightarrow>
          (case h5_getitem gradient_group [run @ g @ ''_'' @ str_int (int i)] of
             Inl e \<Rightarrow> Inl e
           | Inr step_group \<Rightarrow> load_raw_measurement_pd names step_group))"

definition gate_step ::
  "string list option \<Rightarrow> h5node \<Rightarrow> nat \<Rightarrow> string \<Rightarrow> detune_tables \<Rightarrow> py_error + detune_tables" where
  "gate_step names gradient_group i gate t =
     (case read_detune_run names gradient_group ''positive_detune_run_'' gate i of
        Inl e \<Rightarrow> Inl e
      | Inr pos \<Rightarrow>
          (case read_detune_run names gradient_group ''positive_detune_run_'' gate i of
             Inl e \<Rightarrow> Inl e
           | Inr neg \<Rightarrow>
               (case names of
                  None \<Rightarrow> Inl TypeError
                | Some evaluators \<Rightarrow> evaluator_loop i gate pos neg evaluators t)))"

fun gate_loop ::
  "string list option \<Rightarrow> h5node \<Rightarrow> nat \<Rightarrow> string list \<Rightarrow> detune_tables \<Rightarrow> py_error + detune_tables" where
  "gate_loop names gradient_group i [] t = Inr t"
| "gate_loop names gradient_group i (gate # rest) t =
     (case gate_step names gradient_group i gate t of
        Inl e \<Rightarrow> Inl e
      | Inr t' \<Rightarrow> gate_loop names gradient_group i rest t')"

fun repetition_loop ::
  "string list option \<Rightarrow> h5node \<Rightarrow> string list \<Rightarrow> nat list \<Rightarrow> detune_tables \<Rightarrow> py_error + detune_tables" where
  "repetition_loop names gradient_group gates [] t = Inr t"
| "repetition_loop names gradient_group gates (i # rest) t =
     (case gate_loop names gradient_group i gates t of
        Inl e \<Rightarrow> Inl e
      | Inr t' \<Rightarrow> repetition_loop names gradient_group gates rest t')"

text \<open>
  \<^verbatim>\<open>
  def load_raw_measurement_gradient_calculation(self, gradient_number=1, tune_run_number=0):
      self.load_evaluator_names(tune_run_number=tune_run_number)
      gradient_group = self.load_gradient_group(gradient_number=gradient_number, tune_run_number=tune_run_number)
      delta_u = gradient_group.attrs["delta_u"]
      n_repetitions = gradient_group.attrs["n_repetitions"]
      (four tables with index=self.evaluator_names, columns=self.tunable_gate_names)
      for i in range(n_repetitions):
          for gate in self.tunable_gate_names: ...
      return raw_measurement_positive_detune_pd, raw_measurement_negative_detune_pd, \
          parameter_positive_detune_pd, parameter_negative_detune_pd, n_repetitions, delta_u
  \<close>
  \<open>range\<close> needs an integer for \<open>n_repetitions\<close>.
\<close>

definition empty_tables :: "string list option \<Rightarrow> string list \<Rightarrow> detune_tables" where
  "empty_tables names gates =
     (let rows = (case names of None \<Rightarrow> [] | Some evaluators \<Rightarrow> evaluators)
      in \<lparr>raw_measurement_positive_detune_pd = frame_init rows gates,
           raw_measurement_negative_detune_pd = frame_init rows gates,
           parameter_positive_detune_pd = frame_init rows gates,
           parameter_negative_detune_pd = frame_init rows gates\<rparr>)"

definition load_raw_measurement_gradient_calculation ::
  "analyzer \<Rightarrow> int \<Rightarrow> int \<Rightarrow> analyzer \<times> (py_error + detune_tables \<times> int \<times> h5attr)" where
  "load_raw_measurement_gradient_calculation a gradient_number tune_run_number =
     (case load_evaluator_names a tune_run_number of
        (a1, Inl e) \<Rightarrow> (a1, Inl e)
      | (a1, Inr listed) \<Rightarrow>
          (case load_gradient_group a1 gradient_number tune_run_number of
             (a2, Inl e) \<Rightarrow> (a2, Inl e)
           | (a2, Inr gradient_group) \<Rightarrow>
               (case dict_getitem (h5_attrs gradient_group) ''delta_u'' of
                  Inl e \<Rightarrow> (a2, Inl e)
                | Inr delta_u \<Rightarrow>
                    (case dict_getitem (h5_attrs gradient_group) ''n_repetitions'' of
                       Inl e \<Rightarrow> (a2, Inl e)
                     | Inr (IntA n_repetitions) \<Rightarrow>
                         (case repetition_loop (evaluator_names a2) gradient_group (tunable_gate_names a2)
                                 (py_range n_repetitions)
                                 (empty_tables (evaluator_names a2) (tunable_gate_names a2)) of
                            Inl e \<Rightarrow> (a2, Inl e)
                          | Inr t \<Rightarrow> (a2, Inr (t, n_repetitions, delta_u)))
                     | Inr other \<Rightarrow> (a2, Inl TypeError)))))"

text \<open>The cell \<open>table[col][row]\<close> exists.\<close>

definition frame_has :: "'a frame \<Rightarrow> string \<Rightarrow> string \<Rightarrow> bool" where
  "frame_has table col row =
     (case map_of table col of None \<Rightarrow> False | Some column \<Rightarrow> row \<in> set (index column))"

text \<open>The negative tables hold what the positive tables hold.\<close>

definition tables_agree :: "detune_tables \<Rightarrow> bool" where
  "tables_agree t \<longleftrightarrow>
     raw_measurement_negative_detune_pd t = raw_measurement_positive_detune_pd t \<and>
     parameter_negative_detune_pd t = parameter_positive_detune_pd t"

subsection \<open>The accumulated cells as specified\<close>

text \<open>
  What the accumulation is meant to leave in a cell, written from the file alone: the
  dataset \<open><evaluator>\<close> of the group \<open>positive_detune_run_<gate>_<i>\<close>, and the result of
  taking it for repetition 0 and joining it to the cell for every later repetition.
\<close>

definition cell_source :: "h5node \<Rightarrow> string \<Rightarrow> nat \<Rightarrow> string \<Rightarrow> py_error + h5data" where
  "cell_source gradient_group gate i evaluator =
     (case decode_ascii gate of
        Inl e \<Rightarrow> Inl e
      | Inr g \<Rightarrow>
          (case h5_getitem gradient_group [''positive_detune_run_'' @ g @ ''_'' @ str_int (int i)] of
             Inl e \<Rightarrow> Inl e
           | Inr step_group \<Rightarrow>
               (case h5_getitem step_group [evaluator] of
                  Inl e \<Rightarrow> Inl e
                | Inr node \<Rightarrow> h5_read node)))"

definition joined_cell :: "nat \<Rightarrow> h5data option \<Rightarrow> h5data \<Rightarrow> py_error + h5data" where
  "joined_cell i cell matrix =
     (if i = 0 then Inr matrix
      else (case cell of None \<Rightarrow> Inl ValueError | Some old \<Rightarrow> np_concatenate old matrix))"

primrec concatenated_repetitions :: "h5node \<Rightarrow> string \<Rightarrow> string \<Rightarrow> nat \<Rightarrow> py_error + h5data option" where
  "concatenated_repetitions gradient_group gate evaluator 0 = Inr None"
| "concatenated_repetitions gradient_group gate evaluator (Suc k) =
     (case concatenated_repetitions gradient_group gate evaluator k of
        Inl e \<Rightarrow> Inl e
      | Inr cell \<Rightarrow>
          (case cell_source gradient_group gate k evaluator of
             Inl e \<Rightarrow> Inl e
           | Inr matrix \<Rightarrow>
               (case joined_cell k cell matrix of
                  Inl e \<Rightarrow> Inl e
                | Inr joined \<Rightarrow> Inr (Some joined))))"

subsection \<open>A small container file\<close>

text \<open>
  One tune run with one gradient setup for the gate \<open>BA\<close>, measured in two repetitions
  by one evaluator; the run has no tune sequence. The negative detune runs hold other
  numbers than the positive ones. The second file is the first one without the group
  \<open>negative_detune_run_BA_0\<close>.
\<close>

definition example_step :: "real \<Rightarrow> h5node" where
  "example_step v =
     Group [(''evaluator_A'', Dataset (Floats2 [[v, v + 1]]) [(''parameter_x'', RealA v)]),
            (''comment'', Dataset (Names [''raw'']) [])] []"

definition example_positive_runs :: "(string \<times> h5node) list" where
  "example_positive_runs =
     [(''parameter_names'', Dataset (Names [''parameter_x'']) []),
      (''positive_detune_run_BA_0'', example_step 1),
      (''positive_detune_run_BA_1'', example_step 2)]"

definition example_setup_attrs :: "(string \<times> h5attr) list" where
  "example_setup_attrs = [(''delta_u'', RealA (1/2)), (''n_repetitions'', IntA 2)]"

definition example_setup :: h5node where
  "example_setup =
     Group (example_positive_runs @
            [(''negative_detune_run_BA_0'', example_step 10),
             (''negative_detune_run_BA_1'', example_step 20)]) example_setup_attrs"

definition example_setup_without :: h5node where
  "example_setup_without =
     Group (example_positive_runs @ [(''negative_detune_run_BA_1'', example_step 20)]) example_setup_attrs"

definition example_analyzer :: "h5node \<Rightarrow> analyzer" where
  "example_analyzer setup =
     \<lparr>root_group = Group [(''tunerun_0'', Group [(''gradient_setup_1'', setup)] [])] [],
      tunable_gate_names = [''BA''], parameter_names = None, evaluator_names = None,
      console_out = [], console_in = []\<rparr>"

section \<open>Properties of util.py\<close>

subsection \<open>nth_diff\<close>

lemma py_range_numeral_simps:
  "py_range 0 = []"
  "py_range 1 = [0]"
  "py_range 2 = [0, 1]"
  "py_range 3 = [0, 1, 2]"
  by (simp_all add: py_range_def upt_rec)

lemma getitem_in_range:
  "0 \<le> i \<Longrightarrow> i < int (length xs) \<Longrightarrow> getitem xs i = Inr (xs ! nat i)"
  by (simp add: getitem_def py_index_def)

text \<open>
  The loop in closed form: with every index in range, cell \<open>i\<close> of the result is
  \<open>data[i] - data[i+n]\<close>, whatever the array held before.
\<close>

lemma nth_diff_loop_closed:
  assumes "0 \<le> n" and "int k + n \<le> int (length data)" and "length dd = k" and "j \<le> k"
  shows "nth_diff_loop data n [j..<k] dd =
           Inr (take j dd @ map (\<lambda>i. data ! i - data ! (i + nat n)) [j..<k])"
  using assms
proof (induction "k - j" arbitrary: j dd)
  case 0
  then show ?case by simp
next
  case (Suc d)
  then have jk: "j < k" by simp
  have g1: "getitem data (int j) = Inr (data ! j)"
    using getitem_in_range [of "int j" data] jk Suc.prems by simp
  have g2: "getitem data (int j + n) = Inr (data ! (j + nat n))"
    using getitem_in_range [of "int j + n" data] jk Suc.prems by (simp add: nat_add_distrib)
  have ih: "nth_diff_loop data n [Suc j..<k] (dd[j := data ! j - data ! (j + nat n)]) =
              Inr (take (Suc j) (dd[j := data ! j - data ! (j + nat n)])
                   @ map (\<lambda>i. data ! i - data ! (i + nat n)) [Suc j..<k])"
    using Suc.hyps(1) [of "Suc j" "dd[j := data ! j - data ! (j + nat n)]"] Suc.hyps(2) Suc.prems jk
    by simp
  have tk: "take (Suc j) (dd[j := v]) = take j dd @ [v]" for v
    using jk Suc.prems(3) by (simp add: take_Suc_conv_app_nth)
  show ?case
    using jk by (simp add: upt_conv_Cons g1 g2 ih tk)
qed

lemma nth_diff_closed:
  assumes "0 \<le> n" and "n \<le> int (length data)"
  shows "nth_diff data n =
           Inr (map (\<lambda>i. data ! i - data ! (i + nat n)) [0..<length data - nat n])"
proof -
  let ?k = "nat (int (length data) - n)"
  have k: "?k = length data - nat n" using assms by linarith
  have "nth_diff_loop data n [0..<?k] (replicate ?k 0) =
          Inr (take 0 (replicate ?k 0) @ map (\<lambda>i. data ! i - data ! (i + nat n)) [0..<?k])"
    by (rule nth_diff_loop_closed) (use assms in simp_all)
  then show ?thesis
    using assms by (simp add: nth_diff_def py_range_def k Let_def)
qed

text \<open>
  C8 (as stated): \<open>nth_diff([10,20,35,50], n=1)\<close> returns \<open>[10,15,15]\<close> and
  \<open>nth_diff([10,20,35,50], n=2)\<close> returns \<open>[25,30]\<close>. The code subtracts the later
  sample from the earlier one, so on this rising input every difference is negative and
  the stated values are not returned.
\<close>

theorem nth_diff_example_as_stated_fails:
  "nth_diff [10, 20, 35, 50] 1 \<noteq> Inr [10, 15, 15] \<and> nth_diff [10, 20, 35, 50] 2 \<noteq> Inr [25, 30]"
  by (simp add: nth_diff_def py_range_numeral_simps getitem_def py_index_def eval_nat_numeral)

text \<open>
  C8 (amended): \<open>nth_diff([10,20,35,50], n=1)\<close> returns \<open>[-10,-15,-15]\<close> and
  \<open>nth_diff([10,20,35,50], n=2)\<close> returns \<open>[-25,-30]\<close>, element \<open>i\<close> being
  \<open>data[i] - data[i+n]\<close>; each output has length \<open>len(data) - n\<close>.
\<close>

theorem nth_diff_example:
  "nth_diff [10, 20, 35, 50] 1 = Inr [-10, -15, -15] \<and>
   nth_diff [10, 20, 35, 50] 2 = Inr [-25, -30] \<and>
   length [-10, -15, -15 :: real] = length [10, 20, 35, 50 :: real] - 1 \<and>
   length [-25, -30 :: real] = length [10, 20, 35, 50 :: real] - 2"
  by (simp add: nth_diff_def py_range_numeral_simps getitem_def py_index_def eval_nat_numeral)

subsection \<open>find_lead_transition\<close>








text \<open>
  C9: the numeric routines leave the caller's input array unchanged. On a one-dimensional
  trace \<open>find_lead_transition\<close> works on the caller's array itself: after the call with
  \<open>data = [1,2,3,4]\<close>, \<open>center = 0\<close>, \<open>scan_range = 1\<close>, \<open>npoints = 4\<close>,
  \<open>width = 0.25\<close> the caller's array holds \<open>[-1,-1,3,4]\<close>. The two-dimensional path
  of the same function works on a fresh array of column means and leaves its input alone.
\<close>

theorem find_lead_transition_overwrites_trace:
  "fst (snd (find_lead_transition (Arr1 [1, 2, 3, 4]) 0 1 4 (1/4))) = Arr1 [- 1, - 1, 3, 4] \<and>
   fst (snd (find_lead_transition (Arr2 [[1, 2, 3, 4]]) 0 1 4 (1/4))) = Arr2 [[1, 2, 3, 4]]"
  by code_simp

subsection \<open>gradient_min_evaluations\<close>

text \<open>The modelled inverse on a matrix of two rows: the familiar formula, and a right
  inverse for \<open>np.dot\<close>.\<close>

lemma linalg_inv_2x2:
  "linalg_inv [[a, b], [c, d]] =
     (if a * d - b * c = 0 then Inl LinAlgError
      else Inr [[d / (a * d - b * c), - b / (a * d - b * c)],
                [- c / (a * d - b * c), a / (a * d - b * c)]])"
  by (simp add: linalg_inv_def Let_def minor_def drop_nth_def eval_nat_numeral upt_rec)

lemma linalg_inv_2x2_right_inverse:
  assumes "a * d - b * c \<noteq> 0" and "linalg_inv [[a, b], [c, d]] = Inr r"
  shows "np_dot [[a, b], [c, d]] r = [[1, 0], [0, 1]]"
proof -
  have r: "r = [[d / (a * d - b * c), - b / (a * d - b * c)],
                [- c / (a * d - b * c), a / (a * d - b * c)]]"
    using assms by (simp add: linalg_inv_2x2)
  have 1: "a * d / (a * d - b * c) - b * c / (a * d - b * c) = 1"
    using assms(1) by (simp add: diff_divide_distrib [symmetric])
  have 2: "c * b / (a * d - b * c) = b * c / (a * d - b * c)" by (simp add: mult.commute)
  have 3: "d * a / (a * d - b * c) = a * d / (a * d - b * c)" by (simp add: mult.commute)
  show ?thesis
    using 1 by (simp add: r np_dot_def eval_nat_numeral upt_rec 2 3 mult.commute)
qed








section \<open>Properties of solver.py\<close>

subsection \<open>NewtonSolver\<close>

lemma first_suggestion_none:
  "\<forall>e\<in>set es. require_measurement e = None \<Longrightarrow> first_suggestion es = Inr None"
  by (induction es) simp_all

lemma first_suggestion_some:
  "require_measurement e = Some v \<Longrightarrow> first_suggestion (e # es) = Inl ValueError"
  by (simp add: series_bool_def)


text \<open>
  C1: \<open>suggest_next_voltage\<close> asks every estimator in target order, returns the first
  concrete suggestion, and otherwise returns the current position plus the least-squares
  solution of \<open>jacobian \<cdot> step = desired - current_position\<close>; with estimators reporting
  \<open>[1,0]\<close> and \<open>[0,1]\<close>, position \<open>{v1:0, v2:0}\<close> and desired \<open>{p1:1, p2:1}\<close> it returns
  \<open>{v1:1, v2:1}\<close>. On that input the code raises instead: the subtraction aligns the
  desired values (labels \<open>p1\<close>, \<open>p2\<close>) with the position (labels \<open>v1\<close>, \<open>v2\<close>) by label,
  which gives four missing values, and the least-squares call refuses four right-hand
  sides for a Jacobian of two rows, whatever the LAPACK routine \<open>solve\<close> would do. And an
  estimator that does return a suggestion makes the truth test of the loop raise.
\<close>

theorem NewtonSolver_suggest_example_raises:
  "NewtonSolver_init
     [(''p1'', \<lparr>desired = Num 1, minimum = NaN, maximum = NaN\<rparr>),
      (''p2'', \<lparr>desired = Num 1, minimum = NaN, maximum = NaN\<rparr>)]
     [\<lparr>estimate = [1, 0], require_measurement = None\<rparr>,
      \<lparr>estimate = [0, 1], require_measurement = None\<rparr>]
     (Some [(''v1'', Num 0), (''v2'', Num 0)]) None =
   Inr \<lparr>ns_target = [(''p1'', \<lparr>desired = Num 1, minimum = NaN, maximum = NaN\<rparr>),
                      (''p2'', \<lparr>desired = Num 1, minimum = NaN, maximum = NaN\<rparr>)],
        ns_gradient_estimators = [\<lparr>estimate = [1, 0], require_measurement = None\<rparr>,
                                  \<lparr>estimate = [0, 1], require_measurement = None\<rparr>],
        ns_current_position = Some [(''v1'', Num 0), (''v2'', Num 0)],
        ns_current_values = [(''p1'', NaN), (''p2'', NaN)]\<rparr>
   \<and> jacobian
       \<lparr>ns_target = [(''p1'', \<lparr>desired = Num 1, minimum = NaN, maximum = NaN\<rparr>),
                      (''p2'', \<lparr>desired = Num 1, minimum = NaN, maximum = NaN\<rparr>)],
        ns_gradient_estimators = [\<lparr>estimate = [1, 0], require_measurement = None\<rparr>,
                                  \<lparr>estimate = [0, 1], require_measurement = None\<rparr>],
        ns_current_position = Some [(''v1'', Num 0), (''v2'', Num 0)],
        ns_current_values = [(''p1'', NaN), (''p2'', NaN)]\<rparr> =
     Inr [[Num 1, Num 0], [Num 0, Num 1]]
   \<and> series_sub [(''p1'', Num 1), (''p2'', Num 1)] [(''v1'', Num 0), (''v2'', Num 0)] =
     [(''p1'', NaN), (''p2'', NaN), (''v1'', NaN), (''v2'', NaN)]
   \<and> NewtonSolver_suggest_next_voltage solve
       \<lparr>ns_target = [(''p1'', \<lparr>desired = Num 1, minimum = NaN, maximum = NaN\<rparr>),
                      (''p2'', \<lparr>desired = Num 1, minimum = NaN, maximum = NaN\<rparr>)],
        ns_gradient_estimators = [\<lparr>estimate = [1, 0], require_measurement = None\<rparr>,
                                  \<lparr>estimate = [0, 1], require_measurement = None\<rparr>],
        ns_current_position = Some [(''v1'', Num 0), (''v2'', Num 0)],
        ns_current_values = [(''p1'', NaN), (''p2'', NaN)]\<rparr> =
     Inl LinAlgError
   \<and> NewtonSolver_suggest_next_voltage solve
       \<lparr>ns_target = [(''p1'', \<lparr>desired = Num 1, minimum = NaN, maximum = NaN\<rparr>),
                      (''p2'', \<lparr>desired = Num 1, minimum = NaN, maximum = NaN\<rparr>)],
        ns_gradient_estimators = [\<lparr>estimate = [1, 0], require_measurement = Some [(''v1'', Num 1), (''v2'', Num 0)]\<rparr>,
                                  \<lparr>estimate = [0, 1], require_measurement = None\<rparr>],
        ns_current_position = Some [(''v1'', Num 0), (''v2'', Num 0)],
        ns_current_values = [(''p1'', NaN), (''p2'', NaN)]\<rparr> =
     Inl ValueError"
  by (simp add: NewtonSolver_init_def NewtonSolver_suggest_next_voltage_def index_def jacobian_def
      np_linalg_lstsq_def values_of_def series_sub_def target_desired_def series_bool_def)

text \<open>
  C3: construction with a target whose length differs from the number of estimators
  fails with an assertion error (so a target of two parameters with one estimator does),
  and on a solver without a current position \<open>suggest_next_voltage\<close>, when no estimator
  requests a measurement, fails with the run-time error "Position not initialized".
\<close>

theorem NewtonSolver_unconfigured:
  "(length target \<noteq> length gradient_estimators \<longrightarrow>
      NewtonSolver_init target gradient_estimators current_position current_values = Inl AssertionError)
   \<and> (ns_current_position s = None \<and> (\<forall>e\<in>set (ns_gradient_estimators s). require_measurement e = None) \<longrightarrow>
      NewtonSolver_suggest_next_voltage solve s = Inl (RuntimeError ''NewtonSolver: Position not initialized.''))"
  by (simp add: NewtonSolver_init_def NewtonSolver_suggest_next_voltage_def first_suggestion_none)

theorem NewtonSolver_unconfigured_witness:
  "length [(''p1'', \<lparr>desired = Num 1, minimum = NaN, maximum = NaN\<rparr>),
           (''p2'', \<lparr>desired = Num 1, minimum = NaN, maximum = NaN\<rparr>)]
     \<noteq> length [\<lparr>estimate = [1, 0], require_measurement = None\<rparr>]
   \<and> NewtonSolver_init
       [(''p1'', \<lparr>desired = Num 1, minimum = NaN, maximum = NaN\<rparr>),
        (''p2'', \<lparr>desired = Num 1, minimum = NaN, maximum = NaN\<rparr>)]
       [\<lparr>estimate = [1, 0], require_measurement = None\<rparr>] None None = Inl AssertionError
   \<and> NewtonSolver_suggest_next_voltage (\<lambda>a b. Inr b)
       \<lparr>ns_target = [(''p1'', \<lparr>desired = Num 1, minimum = NaN, maximum = NaN\<rparr>)],
        ns_gradient_estimators = [\<lparr>estimate = [1], require_measurement = None\<rparr>],
        ns_current_position = None,
        ns_current_values = [(''p1'', NaN)]\<rparr> =
     Inl (RuntimeError ''NewtonSolver: Position not initialized.'')"
  using NewtonSolver_unconfigured
    [of "[(''p1'', \<lparr>desired = Num 1, minimum = NaN, maximum = NaN\<rparr>),
          (''p2'', \<lparr>desired = Num 1, minimum = NaN, maximum = NaN\<rparr>)]"
        "[\<lparr>estimate = [1, 0], require_measurement = None\<rparr>]" None None
        "\<lparr>ns_target = [(''p1'', \<lparr>desired = Num 1, minimum = NaN, maximum = NaN\<rparr>)],
          ns_gradient_estimators = [\<lparr>estimate = [1], require_measurement = None\<rparr>],
          ns_current_position = None,
          ns_current_values = [(''p1'', NaN)]\<rparr>"
        "\<lambda>a b. Inr b"]
  by simp

text \<open>
  C10: with as many estimators as parameters, construction with a series for
  \<open>current_values\<close> raises (the truth test of the constructor asks the series for its
  truth value) and stores nothing; construction succeeds exactly when \<open>current_values\<close>
  is omitted or \<open>None\<close>, and then every stored current value is not-a-number. This holds
  for every number of parameters, two or more in particular.
\<close>

theorem NewtonSolver_init_current_values:
  assumes "length target = length gradient_estimators"
  shows "NewtonSolver_init target gradient_estimators current_position (Some current_values) = Inl ValueError
       \<and> NewtonSolver_init target gradient_estimators current_position None =
           Inr \<lparr>ns_target = target, ns_gradient_estimators = gradient_estimators,
                ns_current_position = current_position,
                ns_current_values = map (\<lambda>p. (p, NaN)) (index target)\<rparr>
       \<and> ((\<exists>s. NewtonSolver_init target gradient_estimators current_position cv = Inr s) \<longleftrightarrow> cv = None)"
  using assms by (cases cv) (simp_all add: NewtonSolver_init_def series_bool_def)

theorem NewtonSolver_init_current_values_witness:
  "length [(''p1'', \<lparr>desired = Num 1, minimum = NaN, maximum = NaN\<rparr>),
           (''p2'', \<lparr>desired = Num 1, minimum = NaN, maximum = NaN\<rparr>)]
     = length [\<lparr>estimate = [1, 0], require_measurement = None\<rparr>,
               \<lparr>estimate = [0, 1], require_measurement = None\<rparr>]
   \<and> NewtonSolver_init
       [(''p1'', \<lparr>desired = Num 1, minimum = NaN, maximum = NaN\<rparr>),
        (''p2'', \<lparr>desired = Num 1, minimum = NaN, maximum = NaN\<rparr>)]
       [\<lparr>estimate = [1, 0], require_measurement = None\<rparr>,
        \<lparr>estimate = [0, 1], require_measurement = None\<rparr>]
       None (Some [(''p1'', Num 3), (''p2'', Num 4)]) = Inl ValueError
   \<and> NewtonSolver_init
       [(''p1'', \<lparr>desired = Num 1, minimum = NaN, maximum = NaN\<rparr>),
        (''p2'', \<lparr>desired = Num 1, minimum = NaN, maximum = NaN\<rparr>)]
       [\<lparr>estimate = [1, 0], require_measurement = None\<rparr>,
        \<lparr>estimate = [0, 1], require_measurement = None\<rparr>]
       None None =
     Inr \<lparr>ns_target = [(''p1'', \<lparr>desired = Num 1, minimum = NaN, maximum = NaN\<rparr>),
                        (''p2'', \<lparr>desired = Num 1, minimum = NaN, maximum = NaN\<rparr>)],
          ns_gradient_estimators = [\<lparr>estimate = [1, 0], require_measurement = None\<rparr>,
                                    \<lparr>estimate = [0, 1], require_measurement = None\<rparr>],
          ns_current_position = None,
          ns_current_values = [(''p1'', NaN), (''p2'', NaN)]\<rparr>"
proof -
  have h: "length [(''p1'', \<lparr>desired = Num 1, minimum = NaN, maximum = NaN\<rparr>),
                   (''p2'', \<lparr>desired = Num 1, minimum = NaN, maximum = NaN\<rparr>)]
             = length [\<lparr>estimate = [1, 0], require_measurement = None\<rparr>,
                       \<lparr>estimate = [0, 1], require_measurement = None\<rparr>]"
    by simp
  show ?thesis
    using NewtonSolver_init_current_values [OF h, of None "[(''p1'', Num 3), (''p2'', Num 4)]" None]
    by (simp add: index_def)
qed

subsection \<open>ForwardingSolver\<close>

lemma series_update1_index: "index (series_update1 l v s) = index s"
  by (induction s) (auto simp: series_update1_def index_def)

lemma series_update1_lookup:
  "map_of (series_update1 l v s) k =
     (if k = l then (if l \<in> set (index s) then Some v else None) else map_of s k)"
  by (induction s) (force simp: series_update1_def index_def)+

lemma series_update1_map_of:
  "l \<in> set (index s) \<Longrightarrow> map_of (series_update1 l v s) = (map_of s)(l \<mapsto> v)"
  by (rule ext) (simp add: series_update1_lookup)

lemma fold_series_update1:
  "set (map fst kvs) \<subseteq> set (index s) \<Longrightarrow>
     index (fold (\<lambda>(l, v). series_update1 l v) kvs s) = index s \<and>
     map_of (fold (\<lambda>(l, v). series_update1 l v) kvs s) = map_of s ++ map_of (rev kvs)"
proof (induction kvs arbitrary: s)
  case Nil
  then show ?case by simp
next
  case (Cons kv kvs)
  obtain k v where kv: "kv = (k, v)" by (cases kv)
  have k: "k \<in> set (index s)" and rest: "set (map fst kvs) \<subseteq> set (index (series_update1 k v s))"
    using Cons.prems by (simp_all add: kv series_update1_index)
  have e: "map_of s ++ map_of (rev kvs @ [(k, v)]) = (map_of s)(k \<mapsto> v) ++ map_of (rev kvs)"
    by (rule ext) (simp add: map_add_def split: option.split)
  have "fold (\<lambda>(l, v). series_update1 l v) (kv # kvs) s =
          fold (\<lambda>(l, v). series_update1 l v) kvs (series_update1 k v s)"
    by (simp add: kv)
  then show ?case
    using Cons.IH [OF rest] e
    by (simp only: series_update1_index series_update1_map_of [OF k] rev.simps kv)
qed

lemma series_setitem_labels_ok:
  assumes "set labels \<subseteq> set (index s)" and "length vals = length labels"
  shows "\<exists>s'. series_setitem_labels s labels vals = Inr s' \<and> index s' = index s \<and>
               map_of s' = map_of s ++ map_of (rev (zip labels vals))"
  using assms fold_series_update1 [of "zip labels vals" s]
  by (simp add: series_setitem_labels_def)


lemma update_after_step_general:
  assumes v1: "set (index voltages) \<subseteq> set (index (fs_current_position s))"
    and v2: "set (index voltages) \<subseteq> set (index (fs_next_voltage s))"
    and pm: "\<forall>p\<in>set (index parameters).
               \<exists>g. map_of (fs_parameter_to_voltage s) p = Some g \<and> g \<in> set (index (fs_next_voltage s))"
    and s': "s' = fst (ForwardingSolver_update_after_step s voltages parameters variances)"
    and renamed: "renamed = map (\<lambda>(p, x). (the (map_of (fs_parameter_to_voltage s) p), x)) parameters"
  shows "snd (ForwardingSolver_update_after_step s voltages parameters variances) = None"
    and "index (fs_current_position s') = index (fs_current_position s)"
    and "index (fs_next_voltage s') = index (fs_next_voltage s)"
    and "map_of (fs_current_position s') = map_of (fs_current_position s) ++ map_of (rev voltages)"
    and "map_of (fs_next_voltage s') =
           map_of (fs_next_voltage s) ++ map_of (rev voltages) ++ map_of (rev renamed)"
    and "fs_parameter_to_voltage s' = fs_parameter_to_voltage s"
proof -
  have zv: "zip (index voltages) (values_of voltages) = voltages"
    by (simp add: index_def values_of_def zip_map_fst_snd)
  have lv: "length (values_of voltages) = length (index voltages)"
    by (simp add: index_def values_of_def)
  obtain position where p1: "series_setitem_labels (fs_current_position s) (index voltages) (values_of voltages) = Inr position"
    and p2: "index position = index (fs_current_position s)"
    and p3: "map_of position = map_of (fs_current_position s) ++ map_of (rev voltages)"
    using series_setitem_labels_ok [OF v1 lv] zv by auto
  obtain staged where q1: "series_setitem_labels (fs_next_voltage s) (index voltages) (values_of voltages) = Inr staged"
    and q2: "index staged = index (fs_next_voltage s)"
    and q3: "map_of staged = map_of (fs_next_voltage s) ++ map_of (rev voltages)"
    using series_setitem_labels_ok [OF v2 lv] zv by auto
  let ?names = "new_voltage_names (fs_parameter_to_voltage s) (index parameters)"
  have nn: "None \<notin> set ?names"
    using pm by (auto simp: new_voltage_names_def)
  have sub: "set (map the ?names) \<subseteq> set (index staged)"
    using pm by (auto simp: new_voltage_names_def q2)
  have ln: "length (values_of parameters) = length (map the ?names)"
    by (simp add: new_voltage_names_def index_def values_of_def)
  have zr: "zip (map the ?names) (values_of parameters) = renamed"
    unfolding renamed new_voltage_names_def index_def values_of_def
    by (induction parameters) auto
  obtain staged' where r1: "series_setitem_labels staged (map the ?names) (values_of parameters) = Inr staged'"
    and r2: "index staged' = index staged"
    and r3: "map_of staged' = map_of staged ++ map_of (rev renamed)"
    using series_setitem_labels_ok [OF sub ln] zr by auto
  have res: "ForwardingSolver_update_after_step s voltages parameters variances =
          (s\<lparr>fs_current_position := position, fs_next_voltage := staged'\<rparr>, None)"
    using nn by (simp add: ForwardingSolver_update_after_step_def p1 q1 r1 Let_def)
  show "snd (ForwardingSolver_update_after_step s voltages parameters variances) = None"
    by (simp add: res)
  show "index (fs_current_position s') = index (fs_current_position s)"
    by (simp add: s' res p2)
  show "index (fs_next_voltage s') = index (fs_next_voltage s)"
    by (simp add: s' res r2 q2)
  show "map_of (fs_current_position s') = map_of (fs_current_position s) ++ map_of (rev voltages)"
    by (simp add: s' res p3)
  show "map_of (fs_next_voltage s') =
           map_of (fs_next_voltage s) ++ map_of (rev voltages) ++ map_of (rev renamed)"
    by (simp add: s' res r3 q3)
  show "fs_parameter_to_voltage s' = fs_parameter_to_voltage s"
    by (simp add: s' res)
qed


text \<open>
  C2: \<open>suggest_next_voltage\<close> returns the staged next voltage as it is.
  \<open>update_after_step\<close>, for voltages over channels of the solver and parameters that
  \<open>parameter_to_voltage\<close> maps to channels of the solver, raises nothing, keeps both
  indexes, copies the applied voltages into the current position and into the staged
  voltage for exactly the driven channels, and then overwrites in the staged voltage the
  channels that \<open>parameter_to_voltage\<close> names for the parameters with the measured
  parameter values. With \<open>parameter_to_voltage = {param_A: gate_X}\<close> and position
  \<open>{gate_X: 0, gate_Y: 0}\<close>, after \<open>update_after_step({gate_Y: 1}, {param_A: 5}, ...)\<close>
  the staged voltage is \<open>{gate_X: 5, gate_Y: 1}\<close> and the position \<open>{gate_X: 0, gate_Y: 1}\<close>.
\<close>

theorem ForwardingSolver_forwards:
  assumes "set (index voltages) \<subseteq> set (index (fs_current_position s))"
    and "set (index voltages) \<subseteq> set (index (fs_next_voltage s))"
    and "\<forall>p\<in>set (index parameters).
           \<exists>g. map_of (fs_parameter_to_voltage s) p = Some g \<and> g \<in> set (index (fs_next_voltage s))"
    and "s' = fst (ForwardingSolver_update_after_step s voltages parameters variances)"
    and "renamed = map (\<lambda>(p, x). (the (map_of (fs_parameter_to_voltage s) p), x)) parameters"
  shows "ForwardingSolver_suggest_next_voltage s' = fs_next_voltage s'
       \<and> snd (ForwardingSolver_update_after_step s voltages parameters variances) = None
       \<and> index (fs_current_position s') = index (fs_current_position s)
       \<and> index (fs_next_voltage s') = index (fs_next_voltage s)
       \<and> map_of (fs_current_position s') = map_of (fs_current_position s) ++ map_of (rev voltages)
       \<and> map_of (fs_next_voltage s') =
           map_of (fs_next_voltage s) ++ map_of (rev voltages) ++ map_of (rev renamed)
       \<and> ForwardingSolver_update_after_step
           (ForwardingSolver_init tgt [(''param_A'', ''gate_X'')] [(''gate_X'', Num 0), (''gate_Y'', Num 0)])
           [(''gate_Y'', Num 1)] [(''param_A'', Num 5)] variances =
         (\<lparr>fs_target = tgt, fs_parameter_to_voltage = [(''param_A'', ''gate_X'')],
           fs_current_position = [(''gate_X'', Num 0), (''gate_Y'', Num 1)],
           fs_next_voltage = [(''gate_X'', Num 5), (''gate_Y'', Num 1)]\<rparr>, None)"
proof -
  have "ForwardingSolver_update_after_step
           (ForwardingSolver_init tgt [(''param_A'', ''gate_X'')] [(''gate_X'', Num 0), (''gate_Y'', Num 0)])
           [(''gate_Y'', Num 1)] [(''param_A'', Num 5)] variances =
         (\<lparr>fs_target = tgt, fs_parameter_to_voltage = [(''param_A'', ''gate_X'')],
           fs_current_position = [(''gate_X'', Num 0), (''gate_Y'', Num 1)],
           fs_next_voltage = [(''gate_X'', Num 5), (''gate_Y'', Num 1)]\<rparr>, None)"
    by (simp add: ForwardingSolver_update_after_step_def ForwardingSolver_init_def
        series_setitem_labels_def index_def values_of_def new_voltage_names_def series_update1_def)
  then show ?thesis
    using update_after_step_general [OF assms]
    by (simp add: ForwardingSolver_suggest_next_voltage_def)
qed

theorem ForwardingSolver_forwards_witness:
  "set (index [(''gate_Y'', Num 1)])
     \<subseteq> set (index (fs_current_position
           (ForwardingSolver_init [] [(''param_A'', ''gate_X'')] [(''gate_X'', Num 0), (''gate_Y'', Num 0)])))
   \<and> snd (ForwardingSolver_update_after_step
        (ForwardingSolver_init [] [(''param_A'', ''gate_X'')] [(''gate_X'', Num 0), (''gate_Y'', Num 0)])
        [(''gate_Y'', Num 1)] [(''param_A'', Num 5)] []) = None
   \<and> map_of (fs_current_position (fst (ForwardingSolver_update_after_step
        (ForwardingSolver_init [] [(''param_A'', ''gate_X'')] [(''gate_X'', Num 0), (''gate_Y'', Num 0)])
        [(''gate_Y'', Num 1)] [(''param_A'', Num 5)] []))) =
       map_of [(''gate_X'', Num 0), (''gate_Y'', Num 0)] ++ map_of (rev [(''gate_Y'', Num 1)])
   \<and> map_of (fs_next_voltage (fst (ForwardingSolver_update_after_step
        (ForwardingSolver_init [] [(''param_A'', ''gate_X'')] [(''gate_X'', Num 0), (''gate_Y'', Num 0)])
        [(''gate_Y'', Num 1)] [(''param_A'', Num 5)] []))) =
       map_of [(''gate_X'', Num 0), (''gate_Y'', Num 0)] ++ map_of (rev [(''gate_Y'', Num 1)])
         ++ map_of (rev [(''gate_X'', Num 5)])"
proof -
  let ?s = "ForwardingSolver_init [] [(''param_A'', ''gate_X'')] [(''gate_X'', Num 0), (''gate_Y'', Num 0)]"
  have h1: "set (index [(''gate_Y'', Num 1)]) \<subseteq> set (index (fs_current_position ?s))"
    by (simp add: index_def ForwardingSolver_init_def)
  have h2: "set (index [(''gate_Y'', Num 1)]) \<subseteq> set (index (fs_next_voltage ?s))"
    by (simp add: index_def ForwardingSolver_init_def)
  have h3: "\<forall>p\<in>set (index [(''param_A'', Num 5)]).
              \<exists>g. map_of (fs_parameter_to_voltage ?s) p = Some g \<and> g \<in> set (index (fs_next_voltage ?s))"
    by (simp add: index_def ForwardingSolver_init_def)
  have h4: "fst (ForwardingSolver_update_after_step ?s [(''gate_Y'', Num 1)] [(''param_A'', Num 5)] []) =
            fst (ForwardingSolver_update_after_step ?s [(''gate_Y'', Num 1)] [(''param_A'', Num 5)] [])"
    by (rule refl)
  have h5: "[(''gate_X'', Num 5)] =
            map (\<lambda>(p, x). (the (map_of (fs_parameter_to_voltage ?s) p), x)) [(''param_A'', Num 5)]"
    by (simp add: ForwardingSolver_init_def)
  have i: "fs_current_position ?s = [(''gate_X'', Num 0), (''gate_Y'', Num 0)]"
    "fs_next_voltage ?s = [(''gate_X'', Num 0), (''gate_Y'', Num 0)]"
    by (simp_all add: ForwardingSolver_init_def)
  show ?thesis
    using ForwardingSolver_forwards [OF h1 h2 h3 h4 h5] h1
    unfolding i by blast
qed

section \<open>Properties of Analyzer.py\<close>

subsection \<open>load_cd_gradient\<close>

lemma h5_contains_False_getitem:
  "h5_contains g path = Inr False \<Longrightarrow> h5_getitem g path = Inl KeyError"
  by (cases g) (auto simp: h5_contains_def h5_getitem_def split: option.splits)

text \<open>
  C5: when run \<open>n\<close> exists but has no \<open>charge_diagram_<k>\<close> group, \<open>load_cd_gradient\<close>
  falls back to run \<open>n-1\<close> for \<open>n > 0\<close> and returns the triple found there, and reports
  failure for \<open>n = 0\<close>. The code does call itself for run \<open>n-1\<close>, but drops what the
  call returns and then looks the group up in run \<open>n\<close> again: whenever the group is
  absent from run \<open>n\<close> the call raises, for every \<open>n\<close>, also when run \<open>n-1\<close> holds the
  triple.
\<close>

theorem load_cd_gradient_absent_raises:
  assumes "load_tune_run_group a tune_run_number = (a1, Inr tune_run_group)"
    and "h5_contains tune_run_group [''charge_diagram_'' @ str_int gradient_number] = Inr False"
  shows "\<exists>e. snd (load_cd_gradient a gradient_number tune_run_number) = Inl e"
  using assms h5_contains_False_getitem [OF assms(2)]
  by (subst load_cd_gradient.simps) (simp add: Let_def split: prod.split sum.split)

theorem load_cd_gradient_absent_raises_witness:
  "load_tune_run_group
     \<lparr>root_group =
        Group [(''tunerun_0'',
                Group [(''charge_diagram_1'',
                        Group [(''gradient'', Dataset (Floats2 [[1, 0], [0, 1]]) []),
                               (''heuristic_covariance'', Dataset (Floats2 [[2, 0], [0, 2]]) [])] [])] []),
               (''tunerun_1'', Group [] [])] [],
      tunable_gate_names = [], parameter_names = None, evaluator_names = None,
      console_out = [], console_in = []\<rparr> 1 =
   (\<lparr>root_group =
        Group [(''tunerun_0'',
                Group [(''charge_diagram_1'',
                        Group [(''gradient'', Dataset (Floats2 [[1, 0], [0, 1]]) []),
                               (''heuristic_covariance'', Dataset (Floats2 [[2, 0], [0, 2]]) [])] [])] []),
               (''tunerun_1'', Group [] [])] [],
      tunable_gate_names = [], parameter_names = None, evaluator_names = None,
      console_out = [''parameter_names could not be loaded!''], console_in = []\<rparr>,
    Inr (Group [] []))
   \<and> h5_contains (Group [] []) [''charge_diagram_'' @ str_int 1] = Inr False
   \<and> (\<exists>e. snd (load_cd_gradient
        \<lparr>root_group =
           Group [(''tunerun_0'',
                   Group [(''charge_diagram_1'',
                           Group [(''gradient'', Dataset (Floats2 [[1, 0], [0, 1]]) []),
                                  (''heuristic_covariance'', Dataset (Floats2 [[2, 0], [0, 2]]) [])] [])] []),
                  (''tunerun_1'', Group [] [])] [],
         tunable_gate_names = [], parameter_names = None, evaluator_names = None,
         console_out = [], console_in = []\<rparr> 1 1) = Inl e)
   \<and> snd (load_cd_gradient
        \<lparr>root_group =
           Group [(''tunerun_0'',
                   Group [(''charge_diagram_1'',
                           Group [(''gradient'', Dataset (Floats2 [[1, 0], [0, 1]]) []),
                                  (''heuristic_covariance'', Dataset (Floats2 [[2, 0], [0, 2]]) [])] [])] []),
                  (''tunerun_1'', Group [] [])] [],
         tunable_gate_names = [], parameter_names = None, evaluator_names = None,
         console_out = [], console_in = []\<rparr> 1 1) = Inl KeyError
   \<and> snd (load_cd_gradient
        \<lparr>root_group =
           Group [(''tunerun_0'',
                   Group [(''charge_diagram_1'',
                           Group [(''gradient'', Dataset (Floats2 [[1, 0], [0, 1]]) []),
                                  (''heuristic_covariance'', Dataset (Floats2 [[2, 0], [0, 2]]) [])] [])] []),
                  (''tunerun_1'', Group [] [])] [],
         tunable_gate_names = [], parameter_names = None, evaluator_names = None,
         console_out = [], console_in = []\<rparr> 1 0) =
       Inr (Floats2 [[1, 0], [0, 1]], Floats2 [[2, 0], [0, 2]], None)"
proof -
  let ?a = "\<lparr>root_group =
        Group [(''tunerun_0'',
                Group [(''charge_diagram_1'',
                        Group [(''gradient'', Dataset (Floats2 [[1, 0], [0, 1]]) []),
                               (''heuristic_covariance'', Dataset (Floats2 [[2, 0], [0, 2]]) [])] [])] []),
               (''tunerun_1'', Group [] [])] [],
      tunable_gate_names = [], parameter_names = None, evaluator_names = None,
      console_out = [], console_in = []\<rparr>"
  have h1: "load_tune_run_group ?a 1 =
              (?a\<lparr>console_out := [''parameter_names could not be loaded!'']\<rparr>, Inr (Group [] []))"
    by code_simp
  have h2: "h5_contains (Group [] []) [''charge_diagram_'' @ str_int 1] = Inr False"
    by code_simp
  have c1: "snd (load_cd_gradient ?a 1 1) = Inl KeyError"
    by code_simp
  have c0: "snd (load_cd_gradient ?a 1 0) = Inr (Floats2 [[1, 0], [0, 1]], Floats2 [[2, 0], [0, 2]], None)"
    by code_simp
  show ?thesis
    using load_cd_gradient_absent_raises [OF h1 h2] h1 h2 c1 c0 by simp
qed

subsection \<open>load_raw_measurement_gradient_calculation\<close>

lemma empty_tables_agree: "tables_agree (empty_tables names gates)"
  by (simp add: tables_agree_def empty_tables_def Let_def)

lemma evaluator_step_agree:
  assumes "evaluator_step i gate pos pos evaluator t = Inr t'" and "tables_agree t"
  shows "tables_agree t'"
  using assms
  by (auto simp: evaluator_step_def tables_agree_def split: sum.splits if_splits)

lemma evaluator_loop_agree:
  "evaluator_loop i gate pos pos evaluators t = Inr t' \<Longrightarrow> tables_agree t \<Longrightarrow> tables_agree t'"
proof (induction evaluators arbitrary: t)
  case Nil
  then show ?case by simp
next
  case (Cons evaluator rest)
  then show ?case
    by (auto split: sum.splits dest: evaluator_step_agree)
qed

lemma gate_step_agree:
  assumes "gate_step names gradient_group i gate t = Inr t'" and "tables_agree t"
  shows "tables_agree t'"
  using assms
  by (auto simp: gate_step_def split: sum.splits option.splits dest: evaluator_loop_agree)

lemma gate_loop_agree:
  "gate_loop names gradient_group i gates t = Inr t' \<Longrightarrow> tables_agree t \<Longrightarrow> tables_agree t'"
proof (induction gates arbitrary: t)
  case Nil
  then show ?case by simp
next
  case (Cons gate rest)
  then show ?case
    by (auto split: sum.splits dest: gate_step_agree)
qed

lemma repetition_loop_agree:
  "repetition_loop names gradient_group gates reps t = Inr t' \<Longrightarrow> tables_agree t \<Longrightarrow> tables_agree t'"
proof (induction reps arbitrary: t)
  case Nil
  then show ?case by simp
next
  case (Cons i rest)
  then show ?case
    by (auto split: sum.splits dest: gate_loop_agree)
qed

lemma load_raw_measurement_gradient_calculation_agree:
  assumes "load_raw_measurement_gradient_calculation a gradient_number tune_run_number =
             (a', Inr (t, n_repetitions, delta_u))"
  shows "tables_agree t"
  using assms
  by (auto simp: load_raw_measurement_gradient_calculation_def
      split: prod.splits sum.splits h5attr.splits
      dest!: repetition_loop_agree [OF _ empty_tables_agree])

lemma read_detune_run_positive_only:
  assumes "\<forall>rest. h5_getitem g1 [''positive_detune_run_'' @ rest] = h5_getitem g2 [''positive_detune_run_'' @ rest]"
  shows "read_detune_run names g1 ''positive_detune_run_'' gate i =
         read_detune_run names g2 ''positive_detune_run_'' gate i"
proof (cases "decode_ascii gate")
  case (Inl e)
  then show ?thesis by (simp add: read_detune_run_def)
next
  case (Inr g)
  have "h5_getitem g1 [''positive_detune_run_'' @ (g @ ''_'' @ str_int (int i))] =
        h5_getitem g2 [''positive_detune_run_'' @ (g @ ''_'' @ str_int (int i))]"
    using assms by blast
  then show ?thesis
    unfolding read_detune_run_def Inr by (simp only: sum.case)
qed

lemma gate_step_positive_only:
  assumes "\<forall>rest. h5_getitem g1 [''positive_detune_run_'' @ rest] = h5_getitem g2 [''positive_detune_run_'' @ rest]"
  shows "gate_step names g1 i gate t = gate_step names g2 i gate t"
  unfolding gate_step_def read_detune_run_positive_only [OF assms] ..

lemma gate_loop_positive_only:
  assumes "\<forall>rest. h5_getitem g1 [''positive_detune_run_'' @ rest] = h5_getitem g2 [''positive_detune_run_'' @ rest]"
  shows "gate_loop names g1 i gates t = gate_loop names g2 i gates t"
  by (induction gates arbitrary: t) (simp_all add: gate_step_positive_only [OF assms] split: sum.split)

lemma repetition_loop_positive_only:
  assumes "\<forall>rest. h5_getitem g1 [''positive_detune_run_'' @ rest] = h5_getitem g2 [''positive_detune_run_'' @ rest]"
  shows "repetition_loop names g1 gates reps t = repetition_loop names g2 gates reps t"
  by (induction reps arbitrary: t) (simp_all add: gate_loop_positive_only [OF assms] split: sum.split)


lemma map_of_update_column:
  "map_of (map (\<lambda>(c, column). if c = col then (c, f column) else (c, column)) table) c' =
     (if c' = col then map_option f (map_of table col) else map_of table c')"
  by (induction table) auto

lemma map_of_Some_index: "map_of s k = Some v \<Longrightarrow> k \<in> set (index s)"
  by (auto simp: index_def dest: map_of_SomeD intro: rev_image_eqI)

lemma frame_get_set:
  "frame_get (frame_set table col row v) col' row' =
     (if col' = col \<and> row' = row \<and> frame_has table col row then Some v
      else frame_get table col' row')"
  by (auto simp: frame_get_def frame_set_def frame_has_def map_of_update_column
      series_update1_lookup split: option.splits dest: map_of_Some_index)

lemma frame_has_set [simp]:
  "frame_has (frame_set table col row v) col' row' = frame_has table col' row'"
  by (auto simp: frame_set_def frame_has_def map_of_update_column series_update1_index
      split: option.splits)

lemma frame_has_init:
  "frame_has (frame_init rows cols) col row \<longleftrightarrow> col \<in> set cols \<and> row \<in> set rows"
proof -
  have "map_of (map (\<lambda>c. (c, f c)) cols) col = (if col \<in> set cols then Some (f col) else None)" for f :: "string \<Rightarrow> (string \<times> 'a option) list"
    by (induction cols) auto
  then show ?thesis
    by (auto simp: frame_has_def frame_init_def index_def comp_def split: option.splits)
qed

lemma frame_get_init: "frame_get (frame_init rows cols) col row = None"
proof -
  have c: "map_of (map (\<lambda>c. (c, f c)) cols) col = (if col \<in> set cols then Some (f col) else None)" for f :: "string \<Rightarrow> (string \<times> 'a option) list"
    by (induction cols) auto
  have r: "map_of (map (\<lambda>r. (r, None)) rows) row = (if row \<in> set rows then Some None else None)"
    by (induction rows) auto
  show ?thesis
    by (auto simp: frame_get_def frame_init_def c r split: option.splits)
qed


lemma raw_measurement_loop_lookup:
  "raw_measurement_loop step_group evaluators = Inr (raw, info) \<Longrightarrow> e \<in> set evaluators \<Longrightarrow>
     \<exists>node d. h5_getitem step_group [e] = Inr node \<and> h5_read node = Inr d \<and> map_of raw e = Some d"
proof (induction evaluators arbitrary: raw info)
  case Nil
  then show ?case by simp
next
  case (Cons x rest)
  then show ?case
    by (auto split: sum.splits prod.splits)
qed

lemma evaluator_step_cell:
  assumes "evaluator_step i gate pos pos e t = Inr t'"
  shows "\<exists>d v. dict_getitem (fst pos) e = Inr d \<and>
               joined_cell i (frame_get (raw_measurement_positive_detune_pd t) gate e) d = Inr v \<and>
               raw_measurement_positive_detune_pd t' =
                 frame_set (raw_measurement_positive_detune_pd t) gate e v"
  using assms
  by (auto simp: evaluator_step_def joined_cell_def concatenate_cell_def
      split: sum.splits if_splits option.splits)

lemma evaluator_loop_cells:
  assumes "evaluator_loop i gate pos pos evaluators t = Inr t'"
    and "distinct evaluators"
    and "\<forall>e\<in>set evaluators. frame_has (raw_measurement_positive_detune_pd t) gate e"
  shows "(\<forall>g' e'. g' \<noteq> gate \<or> e' \<notin> set evaluators \<longrightarrow>
            frame_get (raw_measurement_positive_detune_pd t') g' e' =
            frame_get (raw_measurement_positive_detune_pd t) g' e')
       \<and> (\<forall>g' e'. frame_has (raw_measurement_positive_detune_pd t') g' e' =
                   frame_has (raw_measurement_positive_detune_pd t) g' e')
       \<and> (\<forall>e\<in>set evaluators. \<exists>d v. dict_getitem (fst pos) e = Inr d \<and>
             joined_cell i (frame_get (raw_measurement_positive_detune_pd t) gate e) d = Inr v \<and>
             frame_get (raw_measurement_positive_detune_pd t') gate e = Some v)"
  using assms
proof (induction evaluators arbitrary: t)
  case Nil
  then show ?case by simp
next
  case (Cons x rest)
  let ?P = raw_measurement_positive_detune_pd
  from Cons.prems(1) obtain t1 where s1: "evaluator_step i gate pos pos x t = Inr t1"
    and l1: "evaluator_loop i gate pos pos rest t1 = Inr t'"
    by (auto split: sum.splits)
  from evaluator_step_cell [OF s1] obtain d v where d: "dict_getitem (fst pos) x = Inr d"
    and v: "joined_cell i (frame_get (?P t) gate x) d = Inr v"
    and p1: "?P t1 = frame_set (?P t) gate x v"
    by blast
  have hx: "frame_has (?P t) gate x" using Cons.prems(3) by simp
  have xr: "x \<notin> set rest" and dr: "distinct rest" using Cons.prems(2) by simp_all
  have h1: "\<forall>e\<in>set rest. frame_has (?P t1) gate e"
    using Cons.prems(3) by (simp add: p1)
  note ih = Cons.IH [OF l1 dr h1]
  have g1: "frame_get (?P t1) g' e' =
              (if g' = gate \<and> e' = x then Some v else frame_get (?P t) g' e')" for g' e'
    using hx by (simp add: p1 frame_get_set)
  show ?case
  proof (intro conjI allI ballI impI)
    fix g' e'
    assume "g' \<noteq> gate \<or> e' \<notin> set (x # rest)"
    then show "frame_get (?P t') g' e' = frame_get (?P t) g' e'"
      using ih g1 by auto
  next
    fix g' e'
    show "frame_has (?P t') g' e' = frame_has (?P t) g' e'"
      using ih by (simp add: p1)
  next
    fix e
    assume e: "e \<in> set (x # rest)"
    show "\<exists>d v. dict_getitem (fst pos) e = Inr d \<and>
             joined_cell i (frame_get (?P t) gate e) d = Inr v \<and>
             frame_get (?P t') gate e = Some v"
    proof (cases "e = x")
      case True
      have "frame_get (?P t') gate x = frame_get (?P t1) gate x"
        using ih xr by blast
      then show ?thesis
        using True d v g1 by auto
    next
      case False
      then have er: "e \<in> set rest" using e by simp
      then obtain d' v' where "dict_getitem (fst pos) e = Inr d'"
        and "joined_cell i (frame_get (?P t1) gate e) d' = Inr v'"
        and "frame_get (?P t') gate e = Some v'"
        using ih by blast
      then show ?thesis
        using False g1 by auto
    qed
  qed
qed


lemma gate_step_cells:
  assumes "gate_step (Some evaluators) gradient_group i gate t = Inr t'"
    and "distinct evaluators"
    and "\<forall>e\<in>set evaluators. frame_has (raw_measurement_positive_detune_pd t) gate e"
  shows "(\<forall>g' e'. g' \<noteq> gate \<or> e' \<notin> set evaluators \<longrightarrow>
            frame_get (raw_measurement_positive_detune_pd t') g' e' =
            frame_get (raw_measurement_positive_detune_pd t) g' e')
       \<and> (\<forall>g' e'. frame_has (raw_measurement_positive_detune_pd t') g' e' =
                   frame_has (raw_measurement_positive_detune_pd t) g' e')
       \<and> (\<forall>e\<in>set evaluators. \<exists>d v. cell_source gradient_group gate i e = Inr d \<and>
             joined_cell i (frame_get (raw_measurement_positive_detune_pd t) gate e) d = Inr v \<and>
             frame_get (raw_measurement_positive_detune_pd t') gate e = Some v)"
proof -
  let ?P = raw_measurement_positive_detune_pd
  from assms(1) obtain pos where rd: "read_detune_run (Some evaluators) gradient_group ''positive_detune_run_'' gate i = Inr pos"
    and lp: "evaluator_loop i gate pos pos evaluators t = Inr t'"
    by (auto simp: gate_step_def split: sum.splits)
  from rd obtain g step_group where g: "decode_ascii gate = Inr g"
    and sg: "h5_getitem gradient_group [''positive_detune_run_'' @ g @ ''_'' @ str_int (int i)] = Inr step_group"
    and rl: "raw_measurement_loop step_group evaluators = Inr pos"
    by (auto simp: read_detune_run_def load_raw_measurement_pd_def split: sum.splits)
  have src: "cell_source gradient_group gate i e = Inr d"
    if "e \<in> set evaluators" and "dict_getitem (fst pos) e = Inr d" for e d
  proof -
    obtain raw info where pos: "pos = (raw, info)" by (cases pos)
    from raw_measurement_loop_lookup [OF rl [unfolded pos] that(1)]
    obtain node d' where "h5_getitem step_group [e] = Inr node" "h5_read node = Inr d'" "map_of raw e = Some d'"
      by blast
    then show ?thesis
      using that(2) g sg by (simp add: cell_source_def dict_getitem_def pos)
  qed
  note cells = evaluator_loop_cells [OF lp assms(2,3)]
  show ?thesis
  proof (intro conjI ballI)
    show "\<forall>g' e'. g' \<noteq> gate \<or> e' \<notin> set evaluators \<longrightarrow>
            frame_get (?P t') g' e' = frame_get (?P t) g' e'"
      using cells by blast
    show "\<forall>g' e'. frame_has (?P t') g' e' = frame_has (?P t) g' e'"
      using cells by blast
  next
    fix e assume e: "e \<in> set evaluators"
    then obtain d v where "dict_getitem (fst pos) e = Inr d"
      and "joined_cell i (frame_get (?P t) gate e) d = Inr v"
      and "frame_get (?P t') gate e = Some v"
      using cells by blast
    then show "\<exists>d v. cell_source gradient_group gate i e = Inr d \<and>
             joined_cell i (frame_get (?P t) gate e) d = Inr v \<and>
             frame_get (?P t') gate e = Some v"
      using src [OF e] by blast
  qed
qed

lemma gate_loop_cells:
  assumes "gate_loop (Some evaluators) gradient_group i gates t = Inr t'"
    and "distinct gates" and "distinct evaluators"
    and "\<forall>g\<in>set gates. \<forall>e\<in>set evaluators. frame_has (raw_measurement_positive_detune_pd t) g e"
  shows "(\<forall>g' e'. frame_has (raw_measurement_positive_detune_pd t') g' e' =
                   frame_has (raw_measurement_positive_detune_pd t) g' e')
       \<and> (\<forall>g\<in>set gates. \<forall>e\<in>set evaluators. \<exists>d v. cell_source gradient_group g i e = Inr d \<and>
             joined_cell i (frame_get (raw_measurement_positive_detune_pd t) g e) d = Inr v \<and>
             frame_get (raw_measurement_positive_detune_pd t') g e = Some v)
       \<and> (\<forall>g' e'. g' \<notin> set gates \<or> e' \<notin> set evaluators \<longrightarrow>
            frame_get (raw_measurement_positive_detune_pd t') g' e' =
            frame_get (raw_measurement_positive_detune_pd t) g' e')"
  using assms(1,2,4)
proof (induction gates arbitrary: t)
  case Nil
  then show ?case by simp
next
  case (Cons x rest)
  let ?P = raw_measurement_positive_detune_pd
  from Cons.prems(1) obtain t1 where s1: "gate_step (Some evaluators) gradient_group i x t = Inr t1"
    and l1: "gate_loop (Some evaluators) gradient_group i rest t1 = Inr t'"
    by (auto split: sum.splits)
  have hx: "\<forall>e\<in>set evaluators. frame_has (?P t) x e" using Cons.prems(3) by simp
  note st = gate_step_cells [OF s1 assms(3) hx]
  have xr: "x \<notin> set rest" and dr: "distinct rest" using Cons.prems(2) by simp_all
  have h1: "\<forall>g\<in>set rest. \<forall>e\<in>set evaluators. frame_has (?P t1) g e"
    using Cons.prems(3) st by simp
  note ih = Cons.IH [OF l1 dr h1]
  show ?case
  proof (intro conjI allI ballI impI)
    fix g' e'
    show "frame_has (?P t') g' e' = frame_has (?P t) g' e'"
      using ih st by simp
  next
    fix g e assume g: "g \<in> set (x # rest)" and e: "e \<in> set evaluators"
    show "\<exists>d v. cell_source gradient_group g i e = Inr d \<and>
             joined_cell i (frame_get (?P t) g e) d = Inr v \<and> frame_get (?P t') g e = Some v"
    proof (cases "g = x")
      case True
      have "frame_get (?P t') x e = frame_get (?P t1) x e"
        using ih xr by blast
      then show ?thesis
        using True st e by auto
    next
      case False
      then have gr: "g \<in> set rest" using g by simp
      have eq: "frame_get (?P t1) g e = frame_get (?P t) g e"
        using st False by blast
      obtain d v where "cell_source gradient_group g i e = Inr d"
        and "joined_cell i (frame_get (?P t1) g e) d = Inr v"
        and "frame_get (?P t') g e = Some v"
        using ih gr e by blast
      then show ?thesis
        unfolding eq by blast
    qed
  next
    fix g' e' assume "g' \<notin> set (x # rest) \<or> e' \<notin> set evaluators"
    then have a: "g' \<noteq> x \<or> e' \<notin> set evaluators" and b: "g' \<notin> set rest \<or> e' \<notin> set evaluators"
      by auto
    have "frame_get (?P t') g' e' = frame_get (?P t1) g' e'"
      using ih b by blast
    also have "\<dots> = frame_get (?P t) g' e'"
      using st a by blast
    finally show "frame_get (?P t') g' e' = frame_get (?P t) g' e'" .
  qed
qed

lemma repetition_loop_cells:
  assumes "repetition_loop (Some evaluators) gradient_group gates [k..<n] t = Inr t'"
    and "distinct gates" and "distinct evaluators"
    and "\<forall>g\<in>set gates. \<forall>e\<in>set evaluators. frame_has (raw_measurement_positive_detune_pd t) g e"
    and "\<forall>g\<in>set gates. \<forall>e\<in>set evaluators.
           concatenated_repetitions gradient_group g e k = Inr (frame_get (raw_measurement_positive_detune_pd t) g e)"
    and "k \<le> n"
  shows "\<forall>g\<in>set gates. \<forall>e\<in>set evaluators.
           concatenated_repetitions gradient_group g e n = Inr (frame_get (raw_measurement_positive_detune_pd t') g e)"
  using assms(1,4,5,6)
proof (induction "n - k" arbitrary: k t)
  case 0
  then show ?case by simp
next
  case (Suc m)
  let ?P = raw_measurement_positive_detune_pd
  have kn: "k < n" using Suc.hyps(2) by simp
  then have up: "[k..<n] = k # [Suc k..<n]" by (simp add: upt_conv_Cons)
  from Suc.prems(1) obtain t1 where g1: "gate_loop (Some evaluators) gradient_group k gates t = Inr t1"
    and r1: "repetition_loop (Some evaluators) gradient_group gates [Suc k..<n] t1 = Inr t'"
    unfolding up by (auto split: sum.splits)
  note gl = gate_loop_cells [OF g1 assms(2,3) Suc.prems(2)]
  have h1: "\<forall>g\<in>set gates. \<forall>e\<in>set evaluators. frame_has (?P t1) g e"
    using gl Suc.prems(2) by simp
  have c1: "\<forall>g\<in>set gates. \<forall>e\<in>set evaluators.
              concatenated_repetitions gradient_group g e (Suc k) = Inr (frame_get (?P t1) g e)"
  proof (intro ballI)
    fix g e assume g: "g \<in> set gates" and e: "e \<in> set evaluators"
    obtain d v where "cell_source gradient_group g k e = Inr d"
      and "joined_cell k (frame_get (?P t) g e) d = Inr v"
      and "frame_get (?P t1) g e = Some v"
      using gl g e by blast
    moreover have "concatenated_repetitions gradient_group g e k = Inr (frame_get (?P t) g e)"
      using Suc.prems(3) g e by blast
    ultimately show "concatenated_repetitions gradient_group g e (Suc k) = Inr (frame_get (?P t1) g e)"
      by simp
  qed
  show ?case
    using Suc.hyps(1) [of "Suc k" t1, OF _ r1 h1 c1] Suc.hyps(2) kn by simp
qed

lemma repetition_loop_concatenates:
  assumes "repetition_loop (Some evaluators) gradient_group gates (py_range n_repetitions)
             (empty_tables (Some evaluators) gates) = Inr t"
    and "distinct gates" and "distinct evaluators"
    and "gate \<in> set gates" and "evaluator \<in> set evaluators"
  shows "concatenated_repetitions gradient_group gate evaluator (nat n_repetitions) =
           Inr (frame_get (raw_measurement_positive_detune_pd t) gate evaluator)"
proof -
  have "\<forall>g\<in>set gates. \<forall>e\<in>set evaluators.
          concatenated_repetitions gradient_group g e (nat n_repetitions) =
            Inr (frame_get (raw_measurement_positive_detune_pd t) g e)"
    by (rule repetition_loop_cells [where k = 0 and t = "empty_tables (Some evaluators) gates"])
      (use assms in \<open>simp_all add: py_range_def empty_tables_def frame_has_init frame_get_init\<close>)
  then show ?thesis
    using assms(4,5) by blast
qed

text \<open>
  C6 (as stated): the function never reads any \<open>negative_detune_run\<close> group. It does,
  before its loops: \<open>load_evaluator_names\<close> lists the members of
  \<open>gradient_setup_1/negative_detune_run_<first gate>_0\<close> when the run has no
  \<open>tune_sequence/step_0\<close>. On the small file the call returns the two tables; on the
  same file without \<open>negative_detune_run_BA_0\<close> it raises \<open>KeyError\<close>.
\<close>

theorem load_raw_measurement_reads_a_negative_run:
  "snd (load_raw_measurement_gradient_calculation (example_analyzer example_setup) 1 0) =
     Inr (\<lparr>raw_measurement_positive_detune_pd = [(''BA'', [(''evaluator_A'', Some (Floats2 [[1, 2], [2, 3]]))])],
           raw_measurement_negative_detune_pd = [(''BA'', [(''evaluator_A'', Some (Floats2 [[1, 2], [2, 3]]))])],
           parameter_positive_detune_pd = [(''BA'', [(''evaluator_A'', Some [(''parameter_x'', RealA 1)])])],
           parameter_negative_detune_pd = [(''BA'', [(''evaluator_A'', Some [(''parameter_x'', RealA 1)])])]\<rparr>,
          2, RealA (1/2))
   \<and> snd (load_raw_measurement_gradient_calculation (example_analyzer example_setup_without) 1 0) =
     Inl KeyError"
  by code_simp

text \<open>
  C6 (amended): whenever the function returns, its negative tables equal its positive
  tables cell for cell. Its loops read only groups whose names start with
  \<open>positive_detune_run_\<close>: two gradient groups that agree on those give the same tables
  (the evaluator-name discovery before the loops is what may read one
  \<open>negative_detune_run\<close> group). For distinct gates and distinct evaluators the cell of a
  gate and an evaluator holds the dataset of repetition 0 with the datasets of the later
  repetitions joined to it along the first axis, all taken from
  \<open>positive_detune_run_<gate>_<i>\<close>.
\<close>

theorem load_raw_measurement_negative_is_positive:
  "(load_raw_measurement_gradient_calculation a gradient_number tune_run_number =
      (a', Inr (t, n_repetitions, delta_u)) \<longrightarrow>
      raw_measurement_negative_detune_pd t = raw_measurement_positive_detune_pd t \<and>
      parameter_negative_detune_pd t = parameter_positive_detune_pd t)
   \<and> ((\<forall>rest. h5_getitem g1 [''positive_detune_run_'' @ rest] =
               h5_getitem g2 [''positive_detune_run_'' @ rest]) \<longrightarrow>
      repetition_loop names g1 gates reps t0 = repetition_loop names g2 gates reps t0)
   \<and> (repetition_loop (Some evaluators) gradient_group gates (py_range n)
         (empty_tables (Some evaluators) gates) = Inr t1 \<and>
       distinct gates \<and> distinct evaluators \<and> gate \<in> set gates \<and> evaluator \<in> set evaluators \<longrightarrow>
      concatenated_repetitions gradient_group gate evaluator (nat n) =
        Inr (frame_get (raw_measurement_positive_detune_pd t1) gate evaluator) \<and>
      frame_get (raw_measurement_negative_detune_pd t1) gate evaluator =
        frame_get (raw_measurement_positive_detune_pd t1) gate evaluator)"
proof (intro conjI impI)
  assume "load_raw_measurement_gradient_calculation a gradient_number tune_run_number =
            (a', Inr (t, n_repetitions, delta_u))"
  then have "tables_agree t"
    by (rule load_raw_measurement_gradient_calculation_agree)
  then show "raw_measurement_negative_detune_pd t = raw_measurement_positive_detune_pd t"
    and "parameter_negative_detune_pd t = parameter_positive_detune_pd t"
    by (simp_all add: tables_agree_def)
next
  assume "\<forall>rest. h5_getitem g1 [''positive_detune_run_'' @ rest] =
                 h5_getitem g2 [''positive_detune_run_'' @ rest]"
  then show "repetition_loop names g1 gates reps t0 = repetition_loop names g2 gates reps t0"
    by (rule repetition_loop_positive_only)
next
  assume h: "repetition_loop (Some evaluators) gradient_group gates (py_range n)
               (empty_tables (Some evaluators) gates) = Inr t1 \<and>
             distinct gates \<and> distinct evaluators \<and> gate \<in> set gates \<and> evaluator \<in> set evaluators"
  then show "concatenated_repetitions gradient_group gate evaluator (nat n) =
               Inr (frame_get (raw_measurement_positive_detune_pd t1) gate evaluator)"
    using repetition_loop_concatenates [of evaluators gradient_group gates n t1 gate evaluator]
    by blast
  have "tables_agree t1"
    using h repetition_loop_agree [OF _ empty_tables_agree] by blast
  then show "frame_get (raw_measurement_negative_detune_pd t1) gate evaluator =
               frame_get (raw_measurement_positive_detune_pd t1) gate evaluator"
    by (simp add: tables_agree_def)
qed

theorem load_raw_measurement_negative_is_positive_witness:
  "snd (load_raw_measurement_gradient_calculation (example_analyzer example_setup) 1 0) =
     Inr (\<lparr>raw_measurement_positive_detune_pd = [(''BA'', [(''evaluator_A'', Some (Floats2 [[1, 2], [2, 3]]))])],
           raw_measurement_negative_detune_pd = [(''BA'', [(''evaluator_A'', Some (Floats2 [[1, 2], [2, 3]]))])],
           parameter_positive_detune_pd = [(''BA'', [(''evaluator_A'', Some [(''parameter_x'', RealA 1)])])],
           parameter_negative_detune_pd = [(''BA'', [(''evaluator_A'', Some [(''parameter_x'', RealA 1)])])]\<rparr>,
          2, RealA (1/2))
   \<and> (\<forall>rest. h5_getitem example_setup [''positive_detune_run_'' @ rest] =
              h5_getitem (Group example_positive_runs example_setup_attrs) [''positive_detune_run_'' @ rest])
   \<and> repetition_loop (Some [''evaluator_A'']) example_setup [''BA''] (py_range 2)
        (empty_tables (Some [''evaluator_A'']) [''BA'']) =
     repetition_loop (Some [''evaluator_A'']) (Group example_positive_runs example_setup_attrs) [''BA''] (py_range 2)
        (empty_tables (Some [''evaluator_A'']) [''BA''])
   \<and> concatenated_repetitions example_setup ''BA'' ''evaluator_A'' (nat 2) =
       Inr (Some (Floats2 [[1, 2], [2, 3]]))"
proof -
  let ?t = "\<lparr>raw_measurement_positive_detune_pd = [(''BA'', [(''evaluator_A'', Some (Floats2 [[1, 2], [2, 3]]))])],
           raw_measurement_negative_detune_pd = [(''BA'', [(''evaluator_A'', Some (Floats2 [[1, 2], [2, 3]]))])],
           parameter_positive_detune_pd = [(''BA'', [(''evaluator_A'', Some [(''parameter_x'', RealA 1)])])],
           parameter_negative_detune_pd = [(''BA'', [(''evaluator_A'', Some [(''parameter_x'', RealA 1)])])]\<rparr>"
  let ?call = "load_raw_measurement_gradient_calculation (example_analyzer example_setup) 1 0"
  have s: "snd ?call = Inr (?t, 2, RealA (1/2))"
    by code_simp
  then have h1: "?call = (fst ?call, Inr (?t, 2, RealA (1/2)))"
    by (metis prod.collapse)
  have h2: "\<forall>rest. h5_getitem example_setup [''positive_detune_run_'' @ rest] =
              h5_getitem (Group example_positive_runs example_setup_attrs) [''positive_detune_run_'' @ rest]"
    by (simp add: example_setup_def example_positive_runs_def h5_getitem_def)
  have h3: "repetition_loop (Some [''evaluator_A'']) example_setup [''BA''] (py_range 2)
              (empty_tables (Some [''evaluator_A'']) [''BA'']) = Inr ?t"
    by code_simp
  have h4: "distinct [''BA'']" "distinct [''evaluator_A'']" "''BA'' \<in> set [''BA'']"
    "''evaluator_A'' \<in> set [''evaluator_A'']"
    by simp_all
  have f: "frame_get (raw_measurement_positive_detune_pd ?t) ''BA'' ''evaluator_A'' = Some (Floats2 [[1, 2], [2, 3]])"
    by (simp add: frame_get_def)
  show ?thesis
    using load_raw_measurement_negative_is_positive
      [where a = "example_analyzer example_setup" and gradient_number = 1 and tune_run_number = 0
         and a' = "fst ?call" and t = ?t and n_repetitions = 2 and delta_u = "RealA (1/2)"
         and ?g1.0 = example_setup and ?g2.0 = "Group example_positive_runs example_setup_attrs"
         and names = "Some [''evaluator_A'']" and gates = "[''BA'']" and reps = "py_range 2"
         and ?t0.0 = "empty_tables (Some [''evaluator_A'']) [''BA'']"
         and evaluators = "[''evaluator_A'']" and gradient_group = example_setup and n = 2
         and ?t1.0 = ?t and gate = "''BA''" and evaluator = "''evaluator_A''"]
      s h1 h2 h3 h4 f
    by simp
qed

end
